theory Spec2Isabelle
  imports Main "HOL-Library.Sublist"
begin

section \<open>Python values\<close>

text \<open>
  The notebooks are Python run cell by cell in a Jupyter kernel. The values they handle are
  what \<^verbatim>\<open>yaml.safe_load\<close> returns (scalars, lists, dictionaries with string keys), the
  objects of the external SDKs (opaque: \<open>PyObj\<close>, named by a label) and one function
  defined in a notebook and handed to a library (\<open>PyFunc\<close>, by its name).
\<close>

datatype pyval =
    PyNone
  | PyBool bool
  | PyInt int
  | PyStr string
  | PyList "pyval list"
  | PyDict "(string \<times> pyval) list"
  | PyFunc string
  | PyObj string

datatype exn =
    KeyError string
  | NameError string
  | TypeError
  | AttributeError string
  | IndexError
  | ComputeTargetException
  | Raised string

text \<open>
  \<open>ComputeTargetException\<close> is the SDK's "no such compute target"; \<open>Raised c\<close> is any
  other exception of class \<open>c\<close> that an external call raises.
\<close>

fun dict_keys :: "pyval \<Rightarrow> string list" where
  "dict_keys (PyDict kvs) = map fst kvs"
| "dict_keys _ = []"

fun dict_get :: "pyval \<Rightarrow> string \<Rightarrow> pyval option" where
  "dict_get (PyDict kvs) k = map_of kvs k"
| "dict_get _ k = None"

subsection \<open>Decimal rendering of integers, as \<^verbatim>\<open>str\<close> does\<close>

definition digit_char :: "nat \<Rightarrow> char" where
  "digit_char d = char_of (48 + d)"

function dec_nat :: "nat \<Rightarrow> string" where
  "dec_nat n = (if n < 10 then [digit_char n] else dec_nat (n div 10) @ [digit_char (n mod 10)])"
  by pat_completeness auto
termination
  by (relation "measure id") auto

declare dec_nat.simps [simp del]

definition dec_int :: "int \<Rightarrow> string" where
  "dec_int i = (if i < 0 then CHR ''-'' # dec_nat (nat (- i)) else dec_nat (nat i))"

section \<open>The configuration document\<close>

text \<open>
  \<^verbatim>\<open>src/config.yml\<close>, as \<^verbatim>\<open>yaml.safe_load\<close> reads it: a mapping in the file's order,
  comments dropped, \<^verbatim>\<open>true\<close> a boolean, bare numbers integers.
\<close>

definition config_yml :: pyval where
  "config_yml = PyDict
    [(''model'', PyStr ''distilbert-base-uncased''),
     (''task'', PyStr ''cola''),
     (''task_dataset_version'', PyInt 1),
     (''experiment'', PyStr ''training-quickstart''),
     (''description'', PyStr ''distilbert for linguistic acceptability''),
     (''metric'', PyStr ''matthews_correlation''),
     (''val_key'', PyStr ''validation''),
     (''data_dir'', PyStr ''data/glue/cola''),
     (''source_directory'', PyStr ''src''),
     (''environment'', PyStr ''deepspeed-transformers''),
     (''environment_dockerfile'', PyStr ''src/dockerfile''),
     (''training_command'', PyStr ''python train.py''),
     (''compute_target'', PyStr ''gpu-K80-1''),
     (''compute_size'', PyStr ''STANDARD_NC4AS_T4_V3''),
     (''compute_node_count'', PyInt 2),
     (''model_output_dir'', PyStr ''outputs/model''),
     (''registered_model_name'', PyStr ''distilbert-base-uncased-cola''),
     (''pytorch_configuration'', PyDict
        [(''node_count'', PyInt 2),
         (''process_count'', PyInt 2)]),
     (''training_args'', PyDict
        [(''output_dir'', PyStr ''outputs''),
         (''overwrite_output_dir'', PyBool True),
         (''do_eval'', PyBool True),
         (''evaluation_strategy'', PyStr ''epoch''),
         (''num_train_epochs'', PyInt 3),
         (''per_device_train_batch_size'', PyInt 16),
         (''per_device_eval_batch_size'', PyInt 16),
         (''disable_tqdm'', PyBool True),
         (''report_to'', PyStr ''azure_ml''),
         (''deepspeed'', PyStr ''deepspeed_config.json'')])]"

text \<open>The keys the specification lists as recognised, in its order.\<close>

definition recognized_keys :: "string list" where
  "recognized_keys =
    [''model'', ''task'', ''experiment'', ''metric'', ''data_dir'', ''source_directory'',
     ''environment'', ''environment_dockerfile'', ''training_command'', ''compute_target'',
     ''compute_size'', ''compute_node_count'', ''registered_model_name'',
     ''pytorch_configuration'', ''training_args'']"

definition unlisted_keys :: "pyval \<Rightarrow> string list" where
  "unlisted_keys cfg = filter (\<lambda>k. k \<notin> set recognized_keys) (dict_keys cfg)"

definition missing_keys :: "pyval \<Rightarrow> string list" where
  "missing_keys cfg = filter (\<lambda>k. k \<notin> set (dict_keys cfg)) recognized_keys"

fun dict_path :: "pyval \<Rightarrow> string list \<Rightarrow> pyval option" where
  "dict_path v [] = Some v"
| "dict_path v (k # ks) = (case dict_get v k of None \<Rightarrow> None | Some w \<Rightarrow> dict_path w ks)"

section \<open>The accelerator configuration\<close>

text \<open>
  \<^verbatim>\<open>src/deepspeed_config.json\<close>. A JSON number is kept as its decimal literal:
  \<open>JNum m e\<close> is \<open>m\<close> times ten to the \<open>e\<close>, so \<^verbatim>\<open>5e-5\<close> is \<open>JNum 5 (-5)\<close> and
  \<^verbatim>\<open>0.999\<close> is \<open>JNum 999 (-3)\<close>.
\<close>

datatype json =
    JNull
  | JBool bool
  | JNum int int
  | JStr string
  | JArr "json list"
  | JObj "(string \<times> json) list"

definition deepspeed_config :: json where
  "deepspeed_config = JObj
    [(''fp16'', JObj
        [(''enabled'', JBool False),
         (''loss_scale'', JNum 0 0),
         (''loss_scale_window'', JNum 1000 0),
         (''initial_scale_power'', JNum 32 0),
         (''hysteresis'', JNum 2 0),
         (''min_loss_scale'', JNum 1 0)]),
     (''zero_optimization'', JObj
        [(''stage'', JNum 2 0),
         (''allgather_partitions'', JBool True),
         (''allgather_bucket_size'', JNum 2 8),
         (''overlap_comm'', JBool True),
         (''reduce_scatter'', JBool True),
         (''reduce_bucket_size'', JNum 2 8),
         (''contiguous_gradients'', JBool True),
         (''cpu_offload'', JBool True)]),
     (''zero_allow_untested_optimizer'', JBool True),
     (''optimizer'', JObj
        [(''type'', JStr ''AdamW''),
         (''params'', JObj
            [(''lr'', JNum 5 (- 5)),
             (''betas'', JArr [JNum 9 (- 1), JNum 999 (- 3)]),
             (''eps'', JNum 1 (- 8)),
             (''weight_decay'', JNum 0 (- 1))])]),
     (''scheduler'', JObj
        [(''type'', JStr ''WarmupLR''),
         (''params'', JObj
            [(''warmup_min_lr'', JNum 0 0),
             (''warmup_max_lr'', JNum 5 (- 5)),
             (''warmup_num_steps'', JNum 0 0)])]),
     (''steps_per_print'', JNum 2000 0),
     (''wall_clock_breakdown'', JBool False),
     (''train_batch_size'', JStr ''auto''),
     (''gradient_accumulation'', JNum 1 0),
     (''train_micro_batch_size_per_gpu'', JStr ''auto'')]"

fun json_get :: "json \<Rightarrow> string \<Rightarrow> json option" where
  "json_get (JObj kvs) k = map_of kvs k"
| "json_get _ k = None"

fun json_path :: "json \<Rightarrow> string list \<Rightarrow> json option" where
  "json_path v [] = Some v"
| "json_path v (k # ks) = (case json_get v k of None \<Rightarrow> None | Some w \<Rightarrow> json_path w ks)"

fun json_keys :: "json \<Rightarrow> string list" where
  "json_keys (JObj kvs) = map fst kvs"
| "json_keys _ = []"

section \<open>The kernel and the world outside it\<close>

text \<open>
  A cell changes two things: the kernel's global names and the world outside the kernel.
  The world is every service and library the notebooks call (the AzureML SDK, the
  \<^verbatim>\<open>datasets\<close> and \<^verbatim>\<open>transformers\<close> libraries, the file system). None of it is
  code of this repository, so it is a parameter, the \<open>host\<close>: it answers each external
  event, given the events before it, with a value or an exception. What the kernel did to
  the world is the \<open>trace\<close>, the events in the order they happened.

  A method call carries its receiver as first positional argument. A dotted name under an
  imported module (\<^verbatim>\<open>azureml.core.Workspace.from_config\<close>) is looked up by its first
  name only, and called under its full name.

  A library call that is given a function of the notebook calls that function back while
  the call is pending. The world answers such a call with the arguments the library
  passes to the function, one for each time it calls it; the function runs in the kernel;
  \<open>Returned f results\<close> hands its results back to the pending call \<open>f\<close>, and the world's
  answer to that is the value of the call.
\<close>

datatype event =
    Import string
  | Call string "pyval list" "(string \<times> pyval) list"
  | Returned string "pyval list"
  | GetAttr pyval string
  | SetAttr pyval string pyval
  | Print string
  | Display pyval

record host =
  respond :: "event list \<Rightarrow> event \<Rightarrow> exn + pyval"
  render :: "pyval \<Rightarrow> string"
  format_spec :: "pyval \<Rightarrow> string \<Rightarrow> exn + string"

text \<open>
  \<open>render\<close> is \<^verbatim>\<open>str\<close> on the values whose text the interpreter or an SDK class decides
  (containers, objects); \<open>format_spec\<close> is \<^verbatim>\<open>format(v, spec)\<close>, used for \<^verbatim>\<open>:.2f\<close>.
\<close>

record kernel =
  globals :: "string \<Rightarrow> pyval option"
  trace :: "event list"

definition fresh :: kernel where
  "fresh = \<lparr>globals = (\<lambda>_. None), trace = []\<rparr>"

type_synonym 'a py = "host \<Rightarrow> kernel \<Rightarrow> (exn + 'a) \<times> kernel"

definition ret :: "'a \<Rightarrow> 'a py" where
  "ret x = (\<lambda>h k. (Inr x, k))"

definition raise :: "exn \<Rightarrow> 'a py" where
  "raise e = (\<lambda>h k. (Inl e, k))"

definition bind :: "'a py \<Rightarrow> ('a \<Rightarrow> 'b py) \<Rightarrow> 'b py" where
  "bind m f = (\<lambda>h k. case m h k of (Inl e, k') \<Rightarrow> (Inl e, k') | (Inr x, k') \<Rightarrow> f x h k')"

definition load :: "string \<Rightarrow> pyval py" where
  "load x = (\<lambda>h k. case globals k x of None \<Rightarrow> (Inl (NameError x), k) | Some v \<Rightarrow> (Inr v, k))"

definition store :: "string \<Rightarrow> pyval \<Rightarrow> unit py" where
  "store x v = (\<lambda>h k. (Inr (), k\<lparr>globals := (globals k)(x \<mapsto> v)\<rparr>))"

definition ext :: "event \<Rightarrow> pyval py" where
  "ext ev = (\<lambda>h k. (respond h (trace k) ev, k\<lparr>trace := trace k @ [ev]\<rparr>))"

definition call :: "string \<Rightarrow> pyval list \<Rightarrow> (string \<times> pyval) list \<Rightarrow> pyval py" where
  "call f args kwargs = ext (Call f args kwargs)"

definition import_as :: "string \<Rightarrow> string \<Rightarrow> unit py" where
  "import_as m x = bind (ext (Import m)) (store x)"

definition py_str :: "host \<Rightarrow> pyval \<Rightarrow> string" where
  "py_str h v =
     (case v of
        PyStr s \<Rightarrow> s
      | PyInt i \<Rightarrow> dec_int i
      | PyBool b \<Rightarrow> (if b then ''True'' else ''False'')
      | PyNone \<Rightarrow> ''None''
      | _ \<Rightarrow> render h v)"

definition str_of :: "pyval \<Rightarrow> pyval py" where
  "str_of v = (\<lambda>h k. (Inr (PyStr (py_str h v)), k))"

datatype piece = Lit string | Val pyval

definition fstring :: "piece list \<Rightarrow> string py" where
  "fstring ps = (\<lambda>h k. (Inr (concat (map (\<lambda>p. case p of Lit s \<Rightarrow> s | Val v \<Rightarrow> py_str h v) ps)), k))"

definition formatted :: "pyval \<Rightarrow> string \<Rightarrow> string py" where
  "formatted v spec = (\<lambda>h k. (format_spec h v spec, k))"

definition print_str :: "string \<Rightarrow> unit py" where
  "print_str s = (\<lambda>h k. (Inr (), k\<lparr>trace := trace k @ [Print s]\<rparr>))"

definition print_val :: "pyval \<Rightarrow> unit py" where
  "print_val v = (\<lambda>h k. (Inr (), k\<lparr>trace := trace k @ [Print (py_str h v)]\<rparr>))"

text \<open>The value of a cell's last expression is shown as its output, unless it is \<open>None\<close>.\<close>

definition display :: "pyval \<Rightarrow> unit py" where
  "display v = (\<lambda>h k. (Inr (), if v = PyNone then k else k\<lparr>trace := trace k @ [Display v]\<rparr>))"

subsection \<open>Attribute access, method calls, subscripts\<close>

definition getattr :: "pyval \<Rightarrow> string \<Rightarrow> pyval py" where
  "getattr v a = (case v of PyObj _ \<Rightarrow> ext (GetAttr v a) | _ \<Rightarrow> raise (AttributeError a))"

definition setattr :: "pyval \<Rightarrow> string \<Rightarrow> pyval \<Rightarrow> unit py" where
  "setattr v a x =
     (case v of PyObj _ \<Rightarrow> bind (ext (SetAttr v a x)) (\<lambda>_. ret ()) | _ \<Rightarrow> raise (AttributeError a))"

definition call_method :: "pyval \<Rightarrow> string \<Rightarrow> pyval list \<Rightarrow> (string \<times> pyval) list \<Rightarrow> pyval py" where
  "call_method v m args kwargs =
     (case v of PyObj _ \<Rightarrow> call m (v # args) kwargs | _ \<Rightarrow> raise (AttributeError m))"

definition invoke :: "pyval \<Rightarrow> pyval list \<Rightarrow> (string \<times> pyval) list \<Rightarrow> pyval py" where
  "invoke v args kwargs =
     (case v of PyObj _ \<Rightarrow> call ''__call__'' (v # args) kwargs | _ \<Rightarrow> raise TypeError)"

definition subscript_str :: "pyval \<Rightarrow> string \<Rightarrow> pyval py" where
  "subscript_str v key =
     (case v of
        PyDict kvs \<Rightarrow> (case map_of kvs key of None \<Rightarrow> raise (KeyError key) | Some x \<Rightarrow> ret x)
      | PyObj _ \<Rightarrow> call ''__getitem__'' [v, PyStr key] []
      | _ \<Rightarrow> raise TypeError)"

definition py_index :: "'a list \<Rightarrow> int \<Rightarrow> 'a option" where
  "py_index xs i =
     (if 0 \<le> i \<and> i < int (length xs) then Some (xs ! nat i)
      else if i < 0 \<and> - int (length xs) \<le> i then Some (xs ! nat (int (length xs) + i))
      else None)"

definition subscript_int :: "pyval \<Rightarrow> int \<Rightarrow> pyval py" where
  "subscript_int v i =
     (case v of
        PyList xs \<Rightarrow> (case py_index xs i of None \<Rightarrow> raise IndexError | Some x \<Rightarrow> ret x)
      | PyStr s \<Rightarrow> (case py_index s i of None \<Rightarrow> raise IndexError | Some c \<Rightarrow> ret (PyStr [c]))
      | PyDict kvs \<Rightarrow> raise (KeyError (dec_int i))
      | PyObj _ \<Rightarrow> call ''__getitem__'' [v, PyInt i] []
      | _ \<Rightarrow> raise TypeError)"

fun split_on :: "char \<Rightarrow> string \<Rightarrow> string list" where
  "split_on c [] = [[]]"
| "split_on c (x # xs) =
     (if x = c then [] # split_on c xs
      else (case split_on c xs of [] \<Rightarrow> [[x]] | y # ys \<Rightarrow> (x # y) # ys))"

definition split_slash :: "pyval \<Rightarrow> pyval py" where
  "split_slash v =
     (case v of
        PyStr s \<Rightarrow> ret (PyList (map PyStr (split_on (CHR ''/'') s)))
      | PyObj _ \<Rightarrow> call ''split'' [v, PyStr ''/''] []
      | _ \<Rightarrow> raise (AttributeError ''split''))"

definition keys_of :: "pyval \<Rightarrow> pyval py" where
  "keys_of v =
     (case v of
        PyDict kvs \<Rightarrow> ret (PyList (map (PyStr \<circ> fst) kvs))
      | PyObj _ \<Rightarrow> call ''keys'' [v] []
      | _ \<Rightarrow> raise (AttributeError ''keys''))"

definition concat_str :: "string \<Rightarrow> pyval \<Rightarrow> string py" where
  "concat_str s v = (case v of PyStr t \<Rightarrow> ret (s @ t) | _ \<Rightarrow> raise TypeError)"

definition unpack_kwargs :: "pyval \<Rightarrow> (string \<times> pyval) list py" where
  "unpack_kwargs v = (case v of PyDict kvs \<Rightarrow> ret kvs | _ \<Rightarrow> raise TypeError)"

definition config_at :: "string \<Rightarrow> pyval py" where
  "config_at key = bind (load ''config'') (\<lambda>c. subscript_str c key)"

subsection \<open>Statements\<close>

text \<open>
  \<^verbatim>\<open>try: body except C: handler\<close>. The class expression \<open>C\<close> is evaluated when an
  exception reaches the clause, and only an exception of that class is handled.
\<close>

definition try_except :: "unit py \<Rightarrow> exn py \<Rightarrow> unit py \<Rightarrow> unit py" where
  "try_except body cls handler =
     (\<lambda>h k. case body h k of
        (Inr x, k') \<Rightarrow> (Inr x, k')
      | (Inl e, k') \<Rightarrow>
          (case cls h k' of
             (Inl e', k'') \<Rightarrow> (Inl e', k'')
           | (Inr c, k'') \<Rightarrow> if e = c then handler h k'' else (Inl e, k'')))"

text \<open>
  \<^verbatim>\<open>with open(path, 'r') as f: body\<close>: the file is entered, bound, and left again whether
  or not the body raises; a file's exit does not swallow the exception.
\<close>

definition with_open :: "string \<Rightarrow> string \<Rightarrow> unit py \<Rightarrow> unit py" where
  "with_open path x body =
     bind (call ''open'' [PyStr path, PyStr ''r''] []) (\<lambda>file.
     bind (call ''__enter__'' [file] []) (\<lambda>f.
     bind (store x f) (\<lambda>_ h k.
       case body h k of
         (r, k') \<Rightarrow>
           (case call ''__exit__'' [file] [] h k' of
              (Inl e, k'') \<Rightarrow> (Inl e, k'')
            | (Inr _, k'') \<Rightarrow> (r, k'')))))"

text \<open>\<^verbatim>\<open>for x in items: body x\<close> over a tuple or list held by the kernel.\<close>

fun for_each :: "string \<Rightarrow> pyval list \<Rightarrow> (pyval \<Rightarrow> unit py) \<Rightarrow> unit py" where
  "for_each x [] body = ret ()"
| "for_each x (v # vs) body = bind (store x v) (\<lambda>_. bind (body v) (\<lambda>_. for_each x vs body))"

definition for_in :: "string \<Rightarrow> pyval \<Rightarrow> (pyval \<Rightarrow> unit py) \<Rightarrow> unit py" where
  "for_in x v body =
     (case v of
        PyList vs \<Rightarrow> for_each x vs body
      | PyStr s \<Rightarrow> for_each x (map (\<lambda>c. PyStr [c]) s) body
      | PyDict kvs \<Rightarrow> for_each x (map (PyStr \<circ> fst) kvs) body
      | _ \<Rightarrow> raise TypeError)"

text \<open>
  Running cells. "Run all" stops at the first cell that raises. A user can also run the
  cells one at a time in any order, an exception ending only the cell it is raised in.
\<close>

fun run_all :: "unit py list \<Rightarrow> unit py" where
  "run_all [] = ret ()"
| "run_all (c # cs) = bind c (\<lambda>_. run_all cs)"

fun run_each :: "unit py list \<Rightarrow> host \<Rightarrow> kernel \<Rightarrow> kernel" where
  "run_each [] h k = k"
| "run_each (c # cs) h k = run_each cs h (snd (c h k))"

definition load_config :: "unit py" where
  "load_config =
     with_open ''src/config.yml'' ''f''
       (bind (load ''yaml'') (\<lambda>_.
        bind (load ''f'') (\<lambda>f.
        bind (call ''yaml.safe_load'' [f] []) (\<lambda>c.
        store ''config'' c))))"

definition connect_workspace :: "unit py" where
  "connect_workspace =
     bind (load ''azureml'') (\<lambda>_.
     bind (call ''azureml.core.Workspace.from_config'' [] []) (\<lambda>ws.
     store ''workspace'' ws))"

section \<open>Notebook 01: create the compute target\<close>

text \<open>
  \<^verbatim>\<open>
  import onnx
  import transformers
  \<close>
\<close>

definition compute_check_install :: "unit py" where
  "compute_check_install =
     bind (import_as ''onnx'' ''onnx'') (\<lambda>_.
     import_as ''transformers'' ''transformers'')"

definition compute_load_config :: "unit py" where
  "compute_load_config =
     bind (import_as ''yaml'' ''yaml'') (\<lambda>_.
     bind (import_as ''azureml.core'' ''azureml'') (\<lambda>_.
     load_config))"

text \<open>
  \<^verbatim>\<open>
  try:
      cluster = azureml.core.compute.ComputeTarget(
          workspace=workspace, name=config['compute_target'])
      print('Found existing compute cluster')
  except azureml.core.compute_target.ComputeTargetException:
      compute_config = azureml.core.compute.AmlCompute.provisioning_configuration(
          vm_size=config['compute_size'], max_nodes=config['compute_node_count'])
      cluster = azureml.core.compute.ComputeTarget.create(
          workspace=workspace, name=config['compute_target'],
          provisioning_configuration=compute_config)
  cluster.wait_for_completion(show_output=True)
  \<close>
  The wait is the cell's last expression, so its value is the cell's output.
\<close>

definition find_cluster :: "unit py" where
  "find_cluster =
     bind (load ''azureml'') (\<lambda>_.
     bind (load ''workspace'') (\<lambda>ws.
     bind (config_at ''compute_target'') (\<lambda>name.
     bind (call ''azureml.core.compute.ComputeTarget'' []
             [(''workspace'', ws), (''name'', name)]) (\<lambda>c.
     bind (store ''cluster'' c) (\<lambda>_.
     print_str ''Found existing compute cluster'')))))"

definition provision_cluster :: "unit py" where
  "provision_cluster =
     bind (load ''azureml'') (\<lambda>_.
     bind (config_at ''compute_size'') (\<lambda>vm_size.
     bind (config_at ''compute_node_count'') (\<lambda>max_nodes.
     bind (call ''azureml.core.compute.AmlCompute.provisioning_configuration'' []
             [(''vm_size'', vm_size), (''max_nodes'', max_nodes)]) (\<lambda>cc.
     bind (store ''compute_config'' cc) (\<lambda>_.
     bind (load ''azureml'') (\<lambda>_.
     bind (load ''workspace'') (\<lambda>ws.
     bind (config_at ''compute_target'') (\<lambda>name.
     bind (load ''compute_config'') (\<lambda>compute_config.
     bind (call ''azureml.core.compute.ComputeTarget.create'' []
             [(''workspace'', ws), (''name'', name),
              (''provisioning_configuration'', compute_config)]) (\<lambda>c.
     store ''cluster'' c))))))))))"

definition compute_cluster :: "unit py" where
  "compute_cluster =
     bind (try_except find_cluster
             (bind (load ''azureml'') (\<lambda>_. ret ComputeTargetException))
             provision_cluster) (\<lambda>_.
     bind (load ''cluster'') (\<lambda>cluster.
     bind (call_method cluster ''wait_for_completion'' [] [(''show_output'', PyBool True)]) (\<lambda>r.
     display r)))"

definition create_compute :: "unit py list" where
  "create_compute =
     [compute_check_install, compute_load_config, connect_workspace, compute_cluster]"

text \<open>The calls that provision: building the provisioning configuration, creating the cluster.\<close>

fun is_provisioning :: "event \<Rightarrow> bool" where
  "is_provisioning (Call f args kwargs) =
     (f = ''azureml.core.compute.AmlCompute.provisioning_configuration'' \<or>
      f = ''azureml.core.compute.ComputeTarget.create'')"
| "is_provisioning _ = False"

text \<open>The events a program adds to the trace, run from a given kernel state.\<close>

definition events_of :: "'a py \<Rightarrow> host \<Rightarrow> kernel \<Rightarrow> event list" where
  "events_of m h k = drop (length (trace k)) (trace (snd (m h k)))"

definition outcome :: "'a py \<Rightarrow> host \<Rightarrow> kernel \<Rightarrow> exn + 'a" where
  "outcome m h k = fst (m h k)"

text \<open>The four external calls of the cluster cell, by their arguments.\<close>

definition lookup_cluster :: "pyval \<Rightarrow> pyval \<Rightarrow> event" where
  "lookup_cluster ws name =
     Call ''azureml.core.compute.ComputeTarget'' [] [(''workspace'', ws), (''name'', name)]"

definition provisioning_configuration :: "pyval \<Rightarrow> pyval \<Rightarrow> event" where
  "provisioning_configuration vm_size max_nodes =
     Call ''azureml.core.compute.AmlCompute.provisioning_configuration'' []
       [(''vm_size'', vm_size), (''max_nodes'', max_nodes)]"

definition create_cluster :: "pyval \<Rightarrow> pyval \<Rightarrow> pyval \<Rightarrow> event" where
  "create_cluster ws name cc =
     Call ''azureml.core.compute.ComputeTarget.create'' []
       [(''workspace'', ws), (''name'', name), (''provisioning_configuration'', cc)]"

definition wait_for_completion :: "pyval \<Rightarrow> event" where
  "wait_for_completion cl = Call ''wait_for_completion'' [cl] [(''show_output'', PyBool True)]"

text \<open>
  The end of the cluster cell, once \<open>cluster\<close> is bound to \<open>cl\<close> and the events so far are
  \<open>tr\<close>: the wait on \<open>cl\<close> and, when the wait answers a value other than \<open>None\<close>, that
  value as the cell's output. A \<open>cl\<close> that is no object has no such method: no event.
\<close>

definition waited :: "host \<Rightarrow> event list \<Rightarrow> pyval \<Rightarrow> event list" where
  "waited h tr cl =
     (case cl of
        PyObj _ \<Rightarrow>
          wait_for_completion cl #
          (case respond h tr (wait_for_completion cl) of
             Inr v \<Rightarrow> (if v = PyNone then [] else [Display v])
           | Inl e \<Rightarrow> [])
      | _ \<Rightarrow> [])"

text \<open>
  A kernel in which the first three cells of a notebook have run against
  \<^verbatim>\<open>src/config.yml\<close>, and a world in which no compute target has the configured name.
\<close>

definition configured :: kernel where
  "configured =
     \<lparr>globals = [''yaml'' \<mapsto> PyObj ''yaml'', ''azureml'' \<mapsto> PyObj ''azureml'',
                  ''config'' \<mapsto> config_yml, ''workspace'' \<mapsto> PyObj ''workspace''],
      trace = []\<rparr>"

definition no_such_cluster :: host where
  "no_such_cluster =
     \<lparr>respond = (\<lambda>tr ev.
        if ev = lookup_cluster (PyObj ''workspace'') (PyStr ''gpu-K80-1'')
        then Inl ComputeTargetException
        else Inr (PyObj ''made'')),
      render = (\<lambda>v. ''<object>''),
      format_spec = (\<lambda>v spec. Inr ''0.00'')\<rparr>"

section \<open>Notebook 03: prepare the data\<close>

definition data_imports :: "unit py" where
  "data_imports =
     bind (import_as ''yaml'' ''yaml'') (\<lambda>_.
     bind (import_as ''azureml.core'' ''azureml'') (\<lambda>_.
     bind (import_as ''datasets'' ''datasets'') (\<lambda>_.
     import_as ''transformers'' ''transformers'')))"

text \<open>\<^verbatim>\<open>data = datasets.load_dataset("glue", config['task'])\<close>\<close>

definition data_download :: "unit py" where
  "data_download =
     bind (load ''datasets'') (\<lambda>_.
     bind (config_at ''task'') (\<lambda>task.
     bind (call ''datasets.load_dataset'' [PyStr ''glue'', task] []) (\<lambda>d.
     store ''data'' d)))"

text \<open>
  \<^verbatim>\<open>
  def tokenizer_function(examples):
      return tokenizer(examples['sentence'], padding="max_length", truncation=True)
  \<close>
  The function reads the global \<open>tokenizer\<close> when it is called.
\<close>

definition tokenizer_function :: "pyval \<Rightarrow> pyval py" where
  "tokenizer_function examples =
     bind (load ''tokenizer'') (\<lambda>tokenizer.
     bind (subscript_str examples ''sentence'') (\<lambda>sentences.
     invoke tokenizer [sentences]
       [(''padding'', PyStr ''max_length''), (''truncation'', PyBool True)]))"

text \<open>
  Calling a function value: the one function the notebooks define is
  \<open>tokenizer_function\<close>.
\<close>

definition apply_function :: "pyval \<Rightarrow> pyval \<Rightarrow> pyval py" where
  "apply_function f x =
     (case f of
        PyFunc name \<Rightarrow>
          if name = ''tokenizer_function'' then tokenizer_function x else raise (NameError name)
      | _ \<Rightarrow> raise TypeError)"

fun each_batch :: "(pyval \<Rightarrow> pyval py) \<Rightarrow> pyval list \<Rightarrow> pyval list py" where
  "each_batch f [] = ret []"
| "each_batch f (b # bs) =
     bind (f b) (\<lambda>r.
     bind (each_batch f bs) (\<lambda>rs.
     ret (r # rs)))"

text \<open>
  \<^verbatim>\<open>data.map(tokenizer_function, batched=True)\<close>: the library calls the function on
  the batches of the dataset, one after the other, and makes the new dataset of the
  results. An exception in the function ends the call. When the world answers the call
  with something that is no list of batches, the library has not called the function (a
  result it had cached), and the answer is the value of the call.
\<close>

definition map_batched :: "pyval \<Rightarrow> pyval \<Rightarrow> pyval py" where
  "map_batched d f =
     bind (call_method d ''map'' [f] [(''batched'', PyBool True)]) (\<lambda>answer.
       case answer of
         PyList batches \<Rightarrow>
           bind (each_batch (apply_function f) batches) (\<lambda>results.
           ext (Returned ''map'' results))
       | _ \<Rightarrow> ret answer)"

text \<open>
  \<^verbatim>\<open>
  tokenizer = transformers.AutoTokenizer.from_pretrained(config['model'])
  def tokenizer_function(examples): ...
  data = data.map(tokenizer_function, batched=True)
  data.save_to_disk(config['data_dir'])
  \<close>
  The last line is the cell's last expression: its value is the cell's output.
\<close>

definition data_tokenize :: "unit py" where
  "data_tokenize =
     bind (load ''transformers'') (\<lambda>_.
     bind (config_at ''model'') (\<lambda>model.
     bind (call ''transformers.AutoTokenizer.from_pretrained'' [model] []) (\<lambda>t.
     bind (store ''tokenizer'' t) (\<lambda>_.
     bind (store ''tokenizer_function'' (PyFunc ''tokenizer_function'')) (\<lambda>_.
     bind (load ''data'') (\<lambda>d.
     bind (load ''tokenizer_function'') (\<lambda>f.
     bind (map_batched d f) (\<lambda>d'.
     bind (store ''data'' d') (\<lambda>_.
     bind (load ''data'') (\<lambda>d''.
     bind (config_at ''data_dir'') (\<lambda>dir.
     bind (call_method d'' ''save_to_disk'' [dir] []) (\<lambda>saved.
     display saved))))))))))))"

text \<open>
  \<^verbatim>\<open>
  workspace = azureml.core.Workspace.from_config()
  datastore = workspace.get_default_datastore()
  \<close>
\<close>

definition data_connect :: "unit py" where
  "data_connect =
     bind connect_workspace (\<lambda>_.
     bind (load ''workspace'') (\<lambda>ws.
     bind (call_method ws ''get_default_datastore'' [] []) (\<lambda>ds.
     store ''datastore'' ds)))"

text \<open>
  \<^verbatim>\<open>
  datastore.upload(src_dir=config['data_dir'], target_path=config['data_dir'], overwrite=True)
  \<close>
\<close>

definition data_upload :: "unit py" where
  "data_upload =
     bind (load ''datastore'') (\<lambda>ds.
     bind (config_at ''data_dir'') (\<lambda>src_dir.
     bind (config_at ''data_dir'') (\<lambda>target_path.
     bind (call_method ds ''upload'' []
             [(''src_dir'', src_dir), (''target_path'', target_path),
              (''overwrite'', PyBool True)]) (\<lambda>r.
     display r))))"

text \<open>\<^verbatim>\<open>tags = {"task": config['task'], "model": config['model']}\<close>\<close>

definition dataset_tags :: "pyval py" where
  "dataset_tags =
     bind (config_at ''task'') (\<lambda>task.
     bind (config_at ''model'') (\<lambda>model.
     ret (PyDict [(''task'', task), (''model'', model)])))"

text \<open>
  \<^verbatim>\<open>
  name = config['task']
  description = f"Glue dataset for {config['task']}, tokenized for {config['model']}"
  tags = {"task": config['task'], "model": config['model']}
  path = datastore.path(config['data_dir'])
  amldataset = azureml.core.Dataset.File.from_files(path)
  amldataset = amldataset.register(workspace, name, description, tags, True)
  \<close>
\<close>

definition data_register :: "unit py" where
  "data_register =
     bind (config_at ''task'') (\<lambda>name.
     bind (store ''name'' name) (\<lambda>_.
     bind (config_at ''task'') (\<lambda>task.
     bind (config_at ''model'') (\<lambda>model.
     bind (fstring [Lit ''Glue dataset for '', Val task, Lit '', tokenized for '', Val model])
       (\<lambda>description.
     bind (store ''description'' (PyStr description)) (\<lambda>_.
     bind dataset_tags (\<lambda>tags.
     bind (store ''tags'' tags) (\<lambda>_.
     bind (load ''datastore'') (\<lambda>ds.
     bind (config_at ''data_dir'') (\<lambda>dir.
     bind (call_method ds ''path'' [dir] []) (\<lambda>path.
     bind (store ''path'' path) (\<lambda>_.
     bind (load ''azureml'') (\<lambda>_.
     bind (load ''path'') (\<lambda>path.
     bind (call ''azureml.core.Dataset.File.from_files'' [path] []) (\<lambda>a.
     bind (store ''amldataset'' a) (\<lambda>_.
     bind (load ''amldataset'') (\<lambda>a.
     bind (load ''workspace'') (\<lambda>ws.
     bind (load ''name'') (\<lambda>name.
     bind (load ''description'') (\<lambda>description.
     bind (load ''tags'') (\<lambda>tags.
     bind (call_method a ''register'' [ws, name, description, tags, PyBool True] []) (\<lambda>a'.
     store ''amldataset'' a'))))))))))))))))))))))"

text \<open>\<^verbatim>\<open>amldataset.version\<close>, shown as the cell's output.\<close>

definition data_version :: "unit py" where
  "data_version =
     bind (load ''amldataset'') (\<lambda>a.
     bind (getattr a ''version'') (\<lambda>v.
     display v))"

text \<open>The cells that work on the dataset, and the whole notebook.\<close>

definition dataset_cells :: "unit py list" where
  "dataset_cells =
     [data_download, data_tokenize, data_connect, data_upload, data_register, data_version]"

definition prepare_data :: "unit py list" where
  "prepare_data = [data_imports, load_config] @ dataset_cells"

section \<open>Notebook 04: train the model\<close>

text \<open>
  The notebook is in the repository twice: \<^verbatim>\<open>04 Train model.ipynb\<close> and the later
  \<^verbatim>\<open>04 train model.ipynb.amltmp\<close>. They differ in how the environment is found; the
  later copy also lists the workspace's environments first.
\<close>

definition train_imports :: "unit py" where
  "train_imports =
     bind (import_as ''yaml'' ''yaml'') (\<lambda>_.
     bind (import_as ''azureml.core'' ''azureml'') (\<lambda>_.
     import_as ''transformers'' ''transformers''))"

text \<open>\<^verbatim>\<open>azureml.core.Environment.list(workspace).keys()\<close> (the later copy only)\<close>

definition train_list_environments :: "unit py" where
  "train_list_environments =
     bind (load ''azureml'') (\<lambda>_.
     bind (load ''workspace'') (\<lambda>ws.
     bind (call ''azureml.core.Environment.list'' [ws] []) (\<lambda>envs.
     bind (keys_of envs) (\<lambda>ks.
     display ks))))"

text \<open>\<^verbatim>\<open>environment = azureml.core.Environment.get(workspace, config['environment'])\<close>\<close>

definition train_environment :: "unit py" where
  "train_environment =
     bind (load ''azureml'') (\<lambda>_.
     bind (load ''workspace'') (\<lambda>ws.
     bind (config_at ''environment'') (\<lambda>name.
     bind (call ''azureml.core.Environment.get'' [ws, name] []) (\<lambda>e.
     store ''environment'' e))))"

text \<open>
  The later copy:
  \<^verbatim>\<open>
  # environment = azureml.core.Environment.get(workspace, config['environment'])
  env_name = "deepspeed-transformers-datasets"
  environment = azureml.core.Environment.get(workspace, name=env_name)
  print(environment)
  \<close>
\<close>

definition train_environment_amltmp :: "unit py" where
  "train_environment_amltmp =
     bind (store ''env_name'' (PyStr ''deepspeed-transformers-datasets'')) (\<lambda>_.
     bind (load ''azureml'') (\<lambda>_.
     bind (load ''workspace'') (\<lambda>ws.
     bind (load ''env_name'') (\<lambda>env_name.
     bind (call ''azureml.core.Environment.get'' [ws] [(''name'', env_name)]) (\<lambda>e.
     bind (store ''environment'' e) (\<lambda>_.
     bind (load ''environment'') (\<lambda>e'.
     print_val e')))))))"

text \<open>\<^verbatim>\<open>experiment = azureml.core.Experiment(workspace, config['experiment'])\<close>\<close>

definition train_experiment :: "unit py" where
  "train_experiment =
     bind (load ''azureml'') (\<lambda>_.
     bind (load ''workspace'') (\<lambda>ws.
     bind (config_at ''experiment'') (\<lambda>name.
     bind (call ''azureml.core.Experiment'' [ws, name] []) (\<lambda>e.
     store ''experiment'' e))))"

text \<open>
  \<^verbatim>\<open>
  distributed_job_config = azureml.core.runconfig.PyTorchConfiguration(
      **config['pytorch_configuration'])
  aml_config = azureml.core.ScriptRunConfig(
      source_directory=config['source_directory'],
      command=config['training_command'],
      environment=environment,
      compute_target=config['compute_target'],
      distributed_job_config=distributed_job_config)
  \<close>
\<close>

definition train_configure :: "unit py" where
  "train_configure =
     bind (load ''azureml'') (\<lambda>_.
     bind (config_at ''pytorch_configuration'') (\<lambda>pc.
     bind (unpack_kwargs pc) (\<lambda>kwargs.
     bind (call ''azureml.core.runconfig.PyTorchConfiguration'' [] kwargs) (\<lambda>d.
     bind (store ''distributed_job_config'' d) (\<lambda>_.
     bind (load ''azureml'') (\<lambda>_.
     bind (config_at ''source_directory'') (\<lambda>source_directory.
     bind (config_at ''training_command'') (\<lambda>command.
     bind (load ''environment'') (\<lambda>environment.
     bind (config_at ''compute_target'') (\<lambda>compute_target.
     bind (load ''distributed_job_config'') (\<lambda>distributed_job_config.
     bind (call ''azureml.core.ScriptRunConfig'' []
             [(''source_directory'', source_directory),
              (''command'', command),
              (''environment'', environment),
              (''compute_target'', compute_target),
              (''distributed_job_config'', distributed_job_config)]) (\<lambda>a.
     store ''aml_config'' a))))))))))))"

text \<open>
  \<^verbatim>\<open>
  {"model": config['model'], "task": config['task'], "metric": config['metric'],
   "environment": config['environment'],
   "num_train_epochs": str(config['training_args']['num_train_epochs']),
   "batch_size": str(config['training_args']['per_device_train_batch_size'])}
  \<close>
\<close>

definition run_tags :: "pyval py" where
  "run_tags =
     bind (config_at ''model'') (\<lambda>model.
     bind (config_at ''task'') (\<lambda>task.
     bind (config_at ''metric'') (\<lambda>metric.
     bind (config_at ''environment'') (\<lambda>environment.
     bind (config_at ''training_args'') (\<lambda>ta.
     bind (subscript_str ta ''num_train_epochs'') (\<lambda>epochs.
     bind (str_of epochs) (\<lambda>num_train_epochs.
     bind (config_at ''training_args'') (\<lambda>ta'.
     bind (subscript_str ta' ''per_device_train_batch_size'') (\<lambda>batch.
     bind (str_of batch) (\<lambda>batch_size.
     ret (PyDict
       [(''model'', model), (''task'', task), (''metric'', metric),
        (''environment'', environment), (''num_train_epochs'', num_train_epochs),
        (''batch_size'', batch_size)])))))))))))"

text \<open>
  \<^verbatim>\<open>
  run = experiment.submit(aml_config)
  run.set_tags({...})
  print(f"View run details:\n{run.get_portal_url()}")
  \<close>
\<close>

definition print_portal_url :: "unit py" where
  "print_portal_url =
     bind (load ''run'') (\<lambda>r.
     bind (call_method r ''get_portal_url'' [] []) (\<lambda>url.
     bind (fstring [Lit ''View run details:'', Lit [CHR 0x0A], Val url]) (\<lambda>line.
     print_str line)))"

definition train_submit :: "unit py" where
  "train_submit =
     bind (load ''experiment'') (\<lambda>e.
     bind (load ''aml_config'') (\<lambda>a.
     bind (call_method e ''submit'' [a] []) (\<lambda>r.
     bind (store ''run'' r) (\<lambda>_.
     bind (load ''run'') (\<lambda>r'.
     bind run_tags (\<lambda>tags.
     bind (call_method r' ''set_tags'' [tags] []) (\<lambda>_.
     print_portal_url)))))))"

text \<open>\<^verbatim>\<open>print(f"Run status: {run.get_status()}")\<close>\<close>

definition train_status :: "unit py" where
  "train_status =
     bind (load ''run'') (\<lambda>r.
     bind (call_method r ''get_status'' [] []) (\<lambda>status.
     bind (fstring [Lit ''Run status: '', Val status]) (\<lambda>line.
     print_str line)))"

text \<open>
  \<^verbatim>\<open>
  print(f"Ending {config['metric']}: {run.get_metrics()['eval_'+config['metric']][-1]:.2f}")
  print(f"View run details:\n{run.get_portal_url()}")
  \<close>
\<close>

definition train_metrics :: "unit py" where
  "train_metrics =
     bind (config_at ''metric'') (\<lambda>metric.
     bind (load ''run'') (\<lambda>r.
     bind (call_method r ''get_metrics'' [] []) (\<lambda>metrics.
     bind (config_at ''metric'') (\<lambda>metric'.
     bind (concat_str ''eval_'' metric') (\<lambda>key.
     bind (subscript_str metrics key) (\<lambda>series.
     bind (subscript_int series (- 1)) (\<lambda>final.
     bind (formatted final ''.2f'') (\<lambda>shown.
     bind (fstring [Lit ''Ending '', Val metric, Lit '': '', Lit shown]) (\<lambda>line.
     bind (print_str line) (\<lambda>_.
     print_portal_url))))))))))"

text \<open>
  \<^verbatim>\<open>
  aml_model = azureml.core.Model(workspace,
      name=run.tags['registered_model_name'],
      version=run.tags['registered_model_version'])
  aml_model.download(exist_ok=True);
  \<close>
\<close>

definition train_download :: "unit py" where
  "train_download =
     bind (load ''azureml'') (\<lambda>_.
     bind (load ''workspace'') (\<lambda>ws.
     bind (load ''run'') (\<lambda>r.
     bind (getattr r ''tags'') (\<lambda>tags.
     bind (subscript_str tags ''registered_model_name'') (\<lambda>name.
     bind (load ''run'') (\<lambda>r'.
     bind (getattr r' ''tags'') (\<lambda>tags'.
     bind (subscript_str tags' ''registered_model_version'') (\<lambda>version.
     bind (call ''azureml.core.Model'' [ws] [(''name'', name), (''version'', version)]) (\<lambda>m.
     bind (store ''aml_model'' m) (\<lambda>_.
     bind (load ''aml_model'') (\<lambda>m'.
     bind (call_method m' ''download'' [] [(''exist_ok'', PyBool True)]) (\<lambda>_.
     ret ()))))))))))))"

text \<open>
  \<^verbatim>\<open>
  tokenizer = transformers.AutoTokenizer.from_pretrained("model")
  model = transformers.AutoModelForSequenceClassification.from_pretrained(
      "model", id2label=['negative', 'positive'])
  pipeline = transformers.TextClassificationPipeline(model=model, tokenizer=tokenizer)
  \<close>
\<close>

definition train_pipeline :: "unit py" where
  "train_pipeline =
     bind (load ''transformers'') (\<lambda>_.
     bind (call ''transformers.AutoTokenizer.from_pretrained'' [PyStr ''model''] []) (\<lambda>t.
     bind (store ''tokenizer'' t) (\<lambda>_.
     bind (load ''transformers'') (\<lambda>_.
     bind (call ''transformers.AutoModelForSequenceClassification.from_pretrained''
             [PyStr ''model'']
             [(''id2label'', PyList [PyStr ''negative'', PyStr ''positive''])]) (\<lambda>m.
     bind (store ''model'' m) (\<lambda>_.
     bind (load ''transformers'') (\<lambda>_.
     bind (load ''model'') (\<lambda>model.
     bind (load ''tokenizer'') (\<lambda>tokenizer.
     bind (call ''transformers.TextClassificationPipeline'' []
             [(''model'', model), (''tokenizer'', tokenizer)]) (\<lambda>p.
     store ''pipeline'' p))))))))))"

text \<open>
  \<^verbatim>\<open>
  sentences = ("i like pie", "books sent other the students")
  for sentence in sentences:
      print(f"Is '{sentence}' grammatical?: {pipeline(sentence)[0]['label']}")
  \<close>
\<close>

definition classify_sentence :: "pyval \<Rightarrow> unit py" where
  "classify_sentence _ =
     bind (load ''sentence'') (\<lambda>shown.
     bind (load ''pipeline'') (\<lambda>p.
     bind (load ''sentence'') (\<lambda>sentence.
     bind (invoke p [sentence] []) (\<lambda>results.
     bind (subscript_int results 0) (\<lambda>first.
     bind (subscript_str first ''label'') (\<lambda>label.
     bind (fstring [Lit ''Is '', Lit [CHR 0x27], Val shown, Lit [CHR 0x27],
                    Lit '' grammatical?: '', Val label]) (\<lambda>line.
     print_str line)))))))"

definition train_sentences :: "unit py" where
  "train_sentences =
     bind (store ''sentences''
             (PyList [PyStr ''i like pie'', PyStr ''books sent other the students''])) (\<lambda>_.
     bind (load ''sentences'') (\<lambda>sentences.
     for_in ''sentence'' sentences classify_sentence))"

definition train_model :: "unit py list" where
  "train_model =
     [train_imports, load_config, connect_workspace, train_environment, train_experiment,
      train_configure, train_submit, train_status, train_metrics, train_download,
      train_pipeline, train_sentences]"

definition train_model_amltmp :: "unit py list" where
  "train_model_amltmp =
     [train_imports, load_config, connect_workspace, train_list_environments,
      train_environment_amltmp, train_experiment, train_configure, train_submit,
      train_status, train_metrics, train_download, train_pipeline, train_sentences]"

section \<open>Notebook 02: prepare the environment\<close>

text \<open>
  The notebook is in the repository twice with the same code cells
  (\<^verbatim>\<open>02 Prepare environment.ipynb\<close>, which ends in one more, empty, code cell, and its
  \<^verbatim>\<open>.amltmp\<close> copy).

  \<^verbatim>\<open>
  import subprocess
  import yaml
  from pathlib import Path
  import azureml.core
  with open('src/config.yml', 'r') as f:
      config = yaml.safe_load(f)
  \<close>
\<close>

definition env_imports :: "unit py" where
  "env_imports =
     bind (import_as ''subprocess'' ''subprocess'') (\<lambda>_.
     bind (import_as ''yaml'' ''yaml'') (\<lambda>_.
     bind (import_as ''pathlib.Path'' ''Path'') (\<lambda>_.
     bind (import_as ''azureml.core'' ''azureml'') (\<lambda>_.
     load_config))))"

text \<open>
  \<^verbatim>\<open>
  environment.python.user_managed_dependencies = True
  environment.python.interpreter_path = "/opt/miniconda/bin/python"
  environment = environment.register(workspace)
  \<close>
  These three lines close both cells that define an environment.
\<close>

definition env_user_managed :: "unit py" where
  "env_user_managed =
     bind (load ''environment'') (\<lambda>e.
     bind (getattr e ''python'') (\<lambda>py.
     bind (setattr py ''user_managed_dependencies'' (PyBool True)) (\<lambda>_.
     bind (load ''environment'') (\<lambda>e'.
     bind (getattr e' ''python'') (\<lambda>py'.
     bind (setattr py' ''interpreter_path'' (PyStr ''/opt/miniconda/bin/python'')) (\<lambda>_.
     bind (load ''environment'') (\<lambda>e''.
     bind (load ''workspace'') (\<lambda>ws.
     bind (call_method e'' ''register'' [ws] []) (\<lambda>registered.
     store ''environment'' registered)))))))))"

text \<open>
  \<^verbatim>\<open>
  environment = azureml.core.Environment.from_dockerfile(
      name=config['environment'],
      dockerfile=Path(config['environment_dockerfile']).read_text())
  ...
  print(f"{environment.name} version {environment.version} registered in {workspace.name}")
  \<close>
\<close>

definition env_register :: "unit py" where
  "env_register =
     bind (load ''azureml'') (\<lambda>_.
     bind (config_at ''environment'') (\<lambda>name.
     bind (load ''Path'') (\<lambda>path_class.
     bind (config_at ''environment_dockerfile'') (\<lambda>file.
     bind (invoke path_class [file] []) (\<lambda>path.
     bind (call_method path ''read_text'' [] []) (\<lambda>dockerfile.
     bind (call ''azureml.core.Environment.from_dockerfile'' []
             [(''name'', name), (''dockerfile'', dockerfile)]) (\<lambda>e.
     bind (store ''environment'' e) (\<lambda>_.
     bind env_user_managed (\<lambda>_.
     bind (load ''environment'') (\<lambda>e1.
     bind (getattr e1 ''name'') (\<lambda>ename.
     bind (load ''environment'') (\<lambda>e2.
     bind (getattr e2 ''version'') (\<lambda>eversion.
     bind (load ''workspace'') (\<lambda>ws.
     bind (getattr ws ''name'') (\<lambda>wname.
     bind (fstring [Val ename, Lit '' version '', Val eversion, Lit '' registered in '',
                    Val wname]) (\<lambda>line.
     print_str line))))))))))))))))"

text \<open>
  \<^verbatim>\<open>
  build = environment.build(workspace)
  print(f"Current status is {build.status}.")
  \<close>
\<close>

definition env_build :: "unit py" where
  "env_build =
     bind (load ''environment'') (\<lambda>e.
     bind (load ''workspace'') (\<lambda>ws.
     bind (call_method e ''build'' [ws] []) (\<lambda>b.
     bind (store ''build'' b) (\<lambda>_.
     bind (load ''build'') (\<lambda>b'.
     bind (getattr b' ''status'') (\<lambda>status.
     bind (fstring [Lit ''Current status is '', Val status, Lit ''.'']) (\<lambda>line.
     print_str line)))))))"

text \<open>
  \<^verbatim>\<open>
  print(f"Current status is {build.status}. We can track the build process at \n {build.log_url}")
  \<close>
\<close>

definition env_status :: "unit py" where
  "env_status =
     bind (load ''build'') (\<lambda>b.
     bind (getattr b ''status'') (\<lambda>status.
     bind (load ''build'') (\<lambda>b'.
     bind (getattr b' ''log_url'') (\<lambda>log_url.
     bind (fstring [Lit ''Current status is '', Val status,
                    Lit ''. We can track the build process at '', Lit [CHR 0x0A], Lit '' '',
                    Val log_url]) (\<lambda>line.
     print_str line)))))"

text \<open>
  \<^verbatim>\<open>
  acr_name = workspace.get_details()["containerRegistry"].split("/")[-1]
  container_name = f"{acr_name}.azurecr.io/{config['experiment']}/{config['environment']}"
  \<close>
\<close>

definition env_names :: "unit py" where
  "env_names =
     bind (load ''workspace'') (\<lambda>ws.
     bind (call_method ws ''get_details'' [] []) (\<lambda>details.
     bind (subscript_str details ''containerRegistry'') (\<lambda>registry.
     bind (split_slash registry) (\<lambda>parts.
     bind (subscript_int parts (- 1)) (\<lambda>acr_name.
     bind (store ''acr_name'' acr_name) (\<lambda>_.
     bind (load ''acr_name'') (\<lambda>acr.
     bind (config_at ''experiment'') (\<lambda>exp_name.
     bind (config_at ''environment'') (\<lambda>env_name.
     bind (fstring [Val acr, Lit ''.azurecr.io/'', Val exp_name, Lit ''/'', Val env_name])
       (\<lambda>container_name.
     store ''container_name'' (PyStr container_name)))))))))))"

text \<open>\<^verbatim>\<open>for line in cmds: print(line)\<close> and its like: the body prints the loop variable.\<close>

definition print_line :: "pyval \<Rightarrow> unit py" where
  "print_line _ = bind (load ''line'') (\<lambda>line. print_val line)"

text \<open>
  \<^verbatim>\<open>
  cmds = (f"docker build {config['source_directory']} .",
          'LATEST=`docker images --format "{{.ID}}" | head -n 1`',
          f"docker tag $LATEST {container_name}")
  for line in cmds:
      print(line)
  \<close>
\<close>

definition latest_image :: string where
  "latest_image =
     ''LATEST='' @ [CHR 0x60] @ ''docker images --format '' @ [CHR 0x22] @ ''{{.ID}}'' @
     [CHR 0x22] @ '' | head -n 1'' @ [CHR 0x60]"

definition env_build_commands :: "unit py" where
  "env_build_commands =
     bind (config_at ''source_directory'') (\<lambda>dir.
     bind (fstring [Lit ''docker build '', Val dir, Lit '' .'']) (\<lambda>c1.
     bind (load ''container_name'') (\<lambda>container_name.
     bind (fstring [Lit ''docker tag $LATEST '', Val container_name]) (\<lambda>c3.
     bind (store ''cmds'' (PyList [PyStr c1, PyStr latest_image, PyStr c3])) (\<lambda>_.
     bind (load ''cmds'') (\<lambda>cmds.
     for_in ''line'' cmds print_line))))))"

text \<open>\<^verbatim>\<open>print(f"docker run -it {container_name} bash")\<close>\<close>

definition env_run_command :: "unit py" where
  "env_run_command =
     bind (load ''container_name'') (\<lambda>container_name.
     bind (fstring [Lit ''docker run -it '', Val container_name, Lit '' bash'']) (\<lambda>line.
     print_str line))"

text \<open>
  \<^verbatim>\<open>
  cmds = (
      f"az login",
      f"az acr login --name {acr_name}",
      f"docker push {container_name}:latest"
  )
  for line in docker_build_commands:
      print(line)
  \<close>
\<close>

definition env_push_commands :: "unit py" where
  "env_push_commands =
     bind (fstring [Lit ''az login'']) (\<lambda>c1.
     bind (load ''acr_name'') (\<lambda>acr_name.
     bind (fstring [Lit ''az acr login --name '', Val acr_name]) (\<lambda>c2.
     bind (load ''container_name'') (\<lambda>container_name.
     bind (fstring [Lit ''docker push '', Val container_name, Lit '':latest'']) (\<lambda>c3.
     bind (store ''cmds'' (PyList [PyStr c1, PyStr c2, PyStr c3])) (\<lambda>_.
     bind (load ''docker_build_commands'') (\<lambda>commands.
     for_in ''line'' commands print_line)))))))"

text \<open>
  \<^verbatim>\<open>
  environment = azureml.core.Environment(config['environment'])
  environment.docker.base_image = f"{container_name}:latest"
  ...
  environment.build(workspace)
  \<close>
\<close>

definition env_from_image :: "unit py" where
  "env_from_image =
     bind (load ''azureml'') (\<lambda>_.
     bind (config_at ''environment'') (\<lambda>name.
     bind (call ''azureml.core.Environment'' [name] []) (\<lambda>e.
     bind (store ''environment'' e) (\<lambda>_.
     bind (load ''container_name'') (\<lambda>container_name.
     bind (fstring [Val container_name, Lit '':latest'']) (\<lambda>image.
     bind (load ''environment'') (\<lambda>e'.
     bind (getattr e' ''docker'') (\<lambda>docker.
     bind (setattr docker ''base_image'' (PyStr image)) (\<lambda>_.
     bind env_user_managed (\<lambda>_.
     bind (load ''environment'') (\<lambda>e''.
     bind (load ''workspace'') (\<lambda>ws.
     bind (call_method e'' ''build'' [ws] []) (\<lambda>b.
     display b)))))))))))))"

definition env_empty :: "unit py" where
  "env_empty = ret ()"

definition prepare_environment_amltmp :: "unit py list" where
  "prepare_environment_amltmp =
     [env_imports, connect_workspace, env_register, env_build, env_status, env_names,
      env_build_commands, env_run_command, env_push_commands, env_from_image]"

definition prepare_environment :: "unit py list" where
  "prepare_environment = prepare_environment_amltmp @ [env_empty]"

text \<open>
  The cells a user picks, by position: any list of positions, in any order and with
  repetitions; a position past the end runs nothing.
\<close>

definition pick :: "unit py list \<Rightarrow> nat list \<Rightarrow> unit py list" where
  "pick cells ns = map (\<lambda>n. if n < length cells then cells ! n else ret ()) ns"

fun is_name_error :: "exn + 'a \<Rightarrow> bool" where
  "is_name_error (Inl (NameError x)) = True"
| "is_name_error _ = False"

section \<open>What a program leaves alone\<close>

text \<open>
  \<open>keeps x m\<close>: running \<open>m\<close> never binds the global name \<open>x\<close> when it was unbound.
  \<open>emits P m\<close>: running \<open>m\<close> only adds events to the trace, each of them satisfying
  \<open>P\<close>.
\<close>

definition keeps :: "string \<Rightarrow> 'a py \<Rightarrow> bool" where
  "keeps x m = (\<forall>h k. globals k x = None \<longrightarrow> globals (snd (m h k)) x = None)"

definition emits :: "(event \<Rightarrow> bool) \<Rightarrow> 'a py \<Rightarrow> bool" where
  "emits P m = (\<forall>h k. \<exists>es. trace (snd (m h k)) = trace k @ es \<and> list_all P es)"

section \<open>Worlds and kernels to run the notebooks in\<close>

text \<open>
  An obliging world: \<^verbatim>\<open>yaml.safe_load\<close> answers with the configuration document, every
  other call with an object named after the function called, an import with the module,
  an attribute read with an object named after the attribute.
\<close>

definition obliging :: host where
  "obliging =
     \<lparr>respond = (\<lambda>tr ev.
        case ev of
          Import m \<Rightarrow> Inr (PyObj m)
        | Call f args kwargs \<Rightarrow> if f = ''yaml.safe_load'' then Inr config_yml else Inr (PyObj f)
        | GetAttr v a \<Rightarrow> Inr (PyObj a)
        | _ \<Rightarrow> Inr PyNone),
      render = (\<lambda>v. case v of PyObj x \<Rightarrow> x | _ \<Rightarrow> ''...''),
      format_spec = (\<lambda>v spec. Inr ''0.00'')\<rparr>"

text \<open>
  A world in which the build and the training run have failed: every status read answers
  \<^verbatim>\<open>'Failed'\<close>; the rest is as in the obliging world. A kernel that is ready to
  submit the run and to register the dataset, and one in which an environment has been
  built and a run submitted.
\<close>

definition failing :: host where
  "failing =
     obliging\<lparr>respond := (\<lambda>tr ev.
        case ev of
          GetAttr v a \<Rightarrow> if a = ''status'' then Inr (PyStr ''Failed'') else respond obliging tr ev
        | Call f args kwargs \<Rightarrow>
            if f = ''get_status'' then Inr (PyStr ''Failed'') else respond obliging tr ev
        | _ \<Rightarrow> respond obliging tr ev)\<rparr>"

definition submitting :: kernel where
  "submitting =
     configured\<lparr>globals := (globals configured)
        (''experiment'' \<mapsto> PyObj ''experiment'', ''aml_config'' \<mapsto> PyObj ''aml_config'',
         ''datastore'' \<mapsto> PyObj ''datastore'')\<rparr>"

definition submitted :: kernel where
  "submitted =
     configured\<lparr>globals := (globals configured)
        (''environment'' \<mapsto> PyObj ''environment'', ''build'' \<mapsto> PyObj ''build'',
         ''run'' \<mapsto> PyObj ''run'')\<rparr>"

text \<open>The value a tag has in the result of evaluating a tag dictionary.\<close>

fun tag_of :: "exn + pyval \<Rightarrow> string \<Rightarrow> pyval option" where
  "tag_of (Inr tags) key = dict_get tags key"
| "tag_of (Inl e) key = None"

section \<open>The tokenizer and its contract\<close>

text \<open>The one call \<open>tokenizer_function\<close> makes, by its arguments.\<close>

definition tokenizer_call :: "pyval \<Rightarrow> pyval \<Rightarrow> event" where
  "tokenizer_call tokenizer sentences =
     Call ''__call__'' [tokenizer, sentences]
       [(''padding'', PyStr ''max_length''), (''truncation'', PyBool True)]"

text \<open>
  A tokenized batch is a dictionary of columns, a column a list with one token sequence for
  each example. \<open>fixed_length n\<close>: every sequence of every column has length \<open>n\<close>.
\<close>

fun row_has_length :: "nat \<Rightarrow> pyval \<Rightarrow> bool" where
  "row_has_length n (PyList xs) = (length xs = n)"
| "row_has_length n _ = False"

fun column_has_length :: "nat \<Rightarrow> pyval \<Rightarrow> bool" where
  "column_has_length n (PyList rows) = list_all (row_has_length n) rows"
| "column_has_length n _ = False"

fun fixed_length :: "nat \<Rightarrow> pyval \<Rightarrow> bool" where
  "fixed_length n (PyDict columns) = list_all (\<lambda>c. column_has_length n (snd c)) columns"
| "fixed_length n _ = False"

text \<open>
  The pretrained tokenizer is code of the \<^verbatim>\<open>transformers\<close> library. What the library
  promises for \<^verbatim>\<open>padding="max_length", truncation=True\<close> is a condition on the world:
  whatever such a call returns has sequences of the tokenizer's maximum length \<open>n\<close>.
\<close>

definition pads_and_truncates :: "host \<Rightarrow> nat \<Rightarrow> bool" where
  "pads_and_truncates h n =
     (\<forall>tr tokenizer sentences r.
        respond h tr (tokenizer_call tokenizer sentences) = Inr r \<longrightarrow> fixed_length n r)"

text \<open>
  A toy tokenizer of maximum length \<open>n\<close> to run the function against: a token for each
  character, cut after \<open>n\<close> tokens, filled up to \<open>n\<close> with the token 0.
\<close>

definition toy_encode :: "nat \<Rightarrow> pyval \<Rightarrow> pyval" where
  "toy_encode n s =
     PyList (take n ((case s of PyStr cs \<Rightarrow> map (\<lambda>c. PyInt (int (of_char c))) cs | _ \<Rightarrow> [])
                     @ replicate n (PyInt 0)))"

definition toy_tokenizer :: "nat \<Rightarrow> host" where
  "toy_tokenizer n =
     obliging\<lparr>respond := (\<lambda>tr ev.
        case ev of
          Call f args kwargs \<Rightarrow>
            if f = ''__call__''
            then (case args of
                    [tokenizer, PyList ss] \<Rightarrow>
                      Inr (PyDict [(''input_ids'', PyList (map (toy_encode n) ss))])
                  | _ \<Rightarrow> Inl TypeError)
            else respond obliging tr ev
        | _ \<Rightarrow> respond obliging tr ev)\<rparr>"

definition tokenizing :: kernel where
  "tokenizing = configured\<lparr>globals := (globals configured)(''tokenizer'' \<mapsto> PyObj ''tokenizer'')\<rparr>"

definition cola_batch :: pyval where
  "cola_batch =
     PyDict [(''sentence'', PyList [PyStr ''i like pie'', PyStr ''no'']),
             (''label'', PyList [PyInt 1, PyInt 0]),
             (''idx'', PyList [PyInt 0, PyInt 1])]"

section \<open>Transcripts\<close>

text \<open>
  A transcript is a list of events, each with the world's answer when the event asks the
  world for one (a print or an output asks for none). \<open>follows h tr script\<close>: after the
  events \<open>tr\<close>, the world \<open>h\<close> gives the answers of the script as long as the events are
  those of the script.
\<close>

fun follows :: "host \<Rightarrow> event list \<Rightarrow> (event \<times> pyval option) list \<Rightarrow> bool" where
  "follows h tr [] = True"
| "follows h tr ((ev, None) # rest) = follows h (tr @ [ev]) rest"
| "follows h tr ((ev, Some v) # rest) = (respond h tr ev = Inr v \<and> follows h (tr @ [ev]) rest)"

definition shown :: "pyval \<Rightarrow> (event \<times> pyval option) list" where
  "shown v = (if v = PyNone then [] else [(Display v, None)])"

text \<open>
  A batch as the library passes it to \<open>tokenizer_function\<close>: its columns, the sentences
  the \<open>sentence\<close> column holds, and what the tokenizer answers for them.
\<close>

type_synonym batch = "(string \<times> pyval) list \<times> pyval \<times> pyval"

definition batch_of :: "batch \<Rightarrow> pyval" where
  "batch_of b = PyDict (fst b)"

definition sentences_of :: "batch \<Rightarrow> pyval" where
  "sentences_of b = fst (snd b)"

definition encoded_of :: "batch \<Rightarrow> pyval" where
  "encoded_of b = snd (snd b)"

definition has_sentences :: "batch \<Rightarrow> bool" where
  "has_sentences b = (map_of (fst b) ''sentence'' = Some (sentences_of b))"

text \<open>The calls to the tokenizer \<open>tok\<close> that tokenize the batches, one call a batch.\<close>

definition callbacks :: "string \<Rightarrow> batch list \<Rightarrow> (event \<times> pyval option) list" where
  "callbacks tok bs =
     map (\<lambda>b. (tokenizer_call (PyObj tok) (sentences_of b), Some (encoded_of b))) bs"

text \<open>
  The data notebook's dealings with the world, from the download to the registered
  dataset's version: the dataset \<open>d0\<close> downloaded for the task; the tokenizer \<open>tok\<close> of the
  model; \<open>map\<close> over \<open>d0\<close>, in which every batch the library passes is tokenized by one
  call to \<open>tok\<close> and the answers go back to make the dataset \<open>d1\<close>; \<open>d1\<close> saved under the
  data directory, uploaded from there to the workspace's default datastore, and registered
  from the uploaded path.
\<close>

definition data_transcript ::
  "host \<Rightarrow> pyval \<Rightarrow> pyval \<Rightarrow> pyval \<Rightarrow> string \<Rightarrow> string \<Rightarrow> batch list \<Rightarrow> string \<Rightarrow> pyval \<Rightarrow>
   string \<Rightarrow> string \<Rightarrow> pyval \<Rightarrow> pyval \<Rightarrow> string \<Rightarrow> string \<Rightarrow> pyval \<Rightarrow>
   (event \<times> pyval option) list" where
  "data_transcript h task model data_dir d0 tok batches d1 saved ws ds uploaded path a
     registered version =
     [(Call ''datasets.load_dataset'' [PyStr ''glue'', task] [], Some (PyObj d0)),
      (Call ''transformers.AutoTokenizer.from_pretrained'' [model] [], Some (PyObj tok)),
      (Call ''map'' [PyObj d0, PyFunc ''tokenizer_function''] [(''batched'', PyBool True)],
       Some (PyList (map batch_of batches)))] @
     callbacks tok batches @
     [(Returned ''map'' (map encoded_of batches), Some (PyObj d1)),
      (Call ''save_to_disk'' [PyObj d1, data_dir] [], Some saved)] @
     shown saved @
     [(Call ''azureml.core.Workspace.from_config'' [] [], Some (PyObj ws)),
      (Call ''get_default_datastore'' [PyObj ws] [], Some (PyObj ds)),
      (Call ''upload'' [PyObj ds]
         [(''src_dir'', data_dir), (''target_path'', data_dir), (''overwrite'', PyBool True)],
       Some uploaded)] @
     shown uploaded @
     [(Call ''path'' [PyObj ds, data_dir] [], Some path),
      (Call ''azureml.core.Dataset.File.from_files'' [path] [], Some (PyObj a)),
      (Call ''register''
         [PyObj a, PyObj ws, task,
          PyStr (''Glue dataset for '' @ py_str h task @ '', tokenized for '' @ py_str h model),
          PyDict [(''task'', task), (''model'', model)], PyBool True] [],
       Some (PyObj registered)),
      (GetAttr (PyObj registered) ''version'', Some version)] @
     shown version"

text \<open>
  A world for the data notebook: as the obliging one, but \<open>map\<close> passes one batch of two
  sentences to the function, the tokenizer is the toy tokenizer of maximum length 4, and
  the results handed back make an object.
\<close>

definition cola_encoded :: pyval where
  "cola_encoded =
     PyDict [(''input_ids'',
       PyList [PyList [PyInt 105, PyInt 32, PyInt 108, PyInt 105],
               PyList [PyInt 110, PyInt 111, PyInt 0, PyInt 0]])]"

definition cola_columns :: "(string \<times> pyval) list" where
  "cola_columns =
     [(''sentence'', PyList [PyStr ''i like pie'', PyStr ''no'']),
      (''label'', PyList [PyInt 1, PyInt 0]),
      (''idx'', PyList [PyInt 0, PyInt 1])]"

definition batching :: host where
  "batching =
     (toy_tokenizer 4)\<lparr>respond := (\<lambda>tr ev.
        case ev of
          Call f args kwargs \<Rightarrow>
            if f = ''map'' then Inr (PyList [PyDict cola_columns])
            else respond (toy_tokenizer 4) tr ev
        | Returned f results \<Rightarrow> Inr (PyObj f)
        | _ \<Rightarrow> respond (toy_tokenizer 4) tr ev)\<rparr>"

definition data_ready :: kernel where
  "data_ready =
     configured\<lparr>globals := (globals configured)
        (''datasets'' \<mapsto> PyObj ''datasets'', ''transformers'' \<mapsto> PyObj ''transformers'')\<rparr>"

section \<open>Waiting for remote work\<close>

text \<open>
  Three calls start work that goes on remotely after the call has returned: creating a
  cluster, building an environment, submitting a run. The SDK's blocking wait is
  \<^verbatim>\<open>wait_for_completion\<close>. \<open>awaited tr\<close>: every start in \<open>tr\<close> is followed, somewhere
  later in \<open>tr\<close>, by a wait.
\<close>

fun is_wait :: "event \<Rightarrow> bool" where
  "is_wait (Call f args kwargs) = (f = ''wait_for_completion'')"
| "is_wait _ = False"

fun starts_remote_work :: "event \<Rightarrow> bool" where
  "starts_remote_work (Call f args kwargs) =
     (f = ''azureml.core.compute.ComputeTarget.create'' \<or> f = ''build'' \<or> f = ''submit'')"
| "starts_remote_work _ = False"

fun awaited :: "event list \<Rightarrow> bool" where
  "awaited [] = True"
| "awaited (e # es) = ((if starts_remote_work e then list_ex is_wait es else True) \<and> awaited es)"

text \<open>
  Every module the notebooks import and every external function they call, by name: the
  calls of the environment, data and training notebooks, and the four more of the compute
  notebook. None of them makes a thread, a process pool or a lock.
\<close>

definition imported_modules :: "string list" where
  "imported_modules =
     [''onnx'', ''transformers'', ''yaml'', ''azureml.core'', ''datasets'', ''subprocess'',
      ''pathlib.Path'']"

definition notebook_calls :: "string list" where
  "notebook_calls =
     [''open'', ''__enter__'', ''__exit__'', ''yaml.safe_load'',
      ''azureml.core.Workspace.from_config'',
      ''__call__'', ''__getitem__'', ''split'', ''keys'',
      ''read_text'', ''azureml.core.Environment.from_dockerfile'', ''register'', ''build'',
      ''get_details'', ''azureml.core.Environment'',
      ''datasets.load_dataset'', ''transformers.AutoTokenizer.from_pretrained'', ''map'',
      ''save_to_disk'', ''get_default_datastore'', ''upload'', ''path'',
      ''azureml.core.Dataset.File.from_files'',
      ''azureml.core.Environment.list'', ''azureml.core.Environment.get'',
      ''azureml.core.Experiment'', ''azureml.core.runconfig.PyTorchConfiguration'',
      ''azureml.core.ScriptRunConfig'', ''submit'', ''set_tags'', ''get_portal_url'',
      ''get_status'', ''get_metrics'', ''azureml.core.Model'', ''download'',
      ''transformers.AutoModelForSequenceClassification.from_pretrained'',
      ''transformers.TextClassificationPipeline'']"

definition compute_calls :: "string list" where
  "compute_calls =
     [''open'', ''__enter__'', ''__exit__'', ''yaml.safe_load'',
      ''azureml.core.Workspace.from_config'', ''__getitem__'',
      ''azureml.core.compute.ComputeTarget'',
      ''azureml.core.compute.AmlCompute.provisioning_configuration'',
      ''azureml.core.compute.ComputeTarget.create'', ''wait_for_completion'']"

fun expected_event :: "string list \<Rightarrow> event \<Rightarrow> bool" where
  "expected_event fs (Call f args kwargs) = (f \<in> set fs)"
| "expected_event fs (Import m) = (m \<in> set imported_modules)"
| "expected_event fs _ = True"

text \<open>The environment, data and training notebooks, both copies of each.\<close>

definition later_notebooks :: "unit py list" where
  "later_notebooks =
     prepare_environment @ prepare_environment_amltmp @ prepare_data @ train_model @
     train_model_amltmp"

text \<open>All four notebooks, both copies of each.\<close>

definition all_notebooks :: "unit py list" where
  "all_notebooks = create_compute @ later_notebooks"

section \<open>The status of a build or a run\<close>

text \<open>
  The two ways the notebooks read a status: the attribute \<^verbatim>\<open>status\<close> of a build, the
  method \<^verbatim>\<open>get_status\<close> of a run.
\<close>

fun is_status_read :: "event \<Rightarrow> bool" where
  "is_status_read (GetAttr v a) = (a = ''status'')"
| "is_status_read (Call f args kwargs) = (f = ''get_status'')"
| "is_status_read _ = False"

text \<open>An event without the text it prints.\<close>

fun unprinted :: "event \<Rightarrow> event" where
  "unprinted (Print s) = Print []"
| "unprinted e = e"

text \<open>
  Two worlds that differ in the status they report and in nothing else: whenever the
  events so far are the same but for printed text, they give the same answer to every
  event; only a status read may be answered with two different values.
\<close>

definition same_but_status :: "host \<Rightarrow> host \<Rightarrow> bool" where
  "same_but_status h1 h2 =
     (render h1 = render h2 \<and> format_spec h1 = format_spec h2 \<and>
      (\<forall>tr1 tr2 ev. map unprinted tr1 = map unprinted tr2 \<longrightarrow>
         respond h1 tr1 ev = respond h2 tr2 ev \<or>
         (is_status_read ev \<and>
          (\<exists>v1 v2. respond h1 tr1 ev = Inr v1 \<and> respond h2 tr2 ev = Inr v2))))"

text \<open>Two kernels with the same names bound and the same events but for printed text.\<close>

definition alike :: "kernel \<Rightarrow> kernel \<Rightarrow> bool" where
  "alike k1 k2 = (globals k1 = globals k2 \<and> map unprinted (trace k1) = map unprinted (trace k2))"

text \<open>
  \<open>agree m1 m2\<close>: in two such worlds, from two such kernels, \<open>m1\<close> in the one and \<open>m2\<close>
  in the other end the same way and leave two such kernels. \<open>steady m\<close>: \<open>m\<close> agrees with
  itself, so what a steady program does cannot depend on a status.
\<close>

definition agree :: "'a py \<Rightarrow> 'a py \<Rightarrow> bool" where
  "agree m1 m2 =
     (\<forall>h1 h2 k1 k2. same_but_status h1 h2 \<longrightarrow> alike k1 k2 \<longrightarrow>
        fst (m1 h1 k1) = fst (m2 h2 k2) \<and> alike (snd (m1 h1 k1)) (snd (m2 h2 k2)))"

definition steady :: "'a py \<Rightarrow> bool" where
  "steady m = agree m m"

section \<open>Concurrency, polling and files\<close>

text \<open>
  A thread, a process, a pool, a lock or a queue is made by a function of one of Python's
  concurrency modules, so by importing from one or calling into one under its name. The
  environment notebook imports \<^verbatim>\<open>subprocess\<close>; only a call into it would start a process.
\<close>

definition module_of :: "string \<Rightarrow> string" where
  "module_of f = takeWhile (\<lambda>c. c \<noteq> CHR ''.'') f"

fun makes_concurrency :: "event \<Rightarrow> bool" where
  "makes_concurrency (Import m) =
     (module_of m \<in> set [''threading'', ''_thread'', ''multiprocessing'', ''concurrent'',
                         ''asyncio'', ''queue''])"
| "makes_concurrency (Call f args kwargs) =
     (module_of f \<in> set [''threading'', ''_thread'', ''multiprocessing'', ''concurrent'',
                         ''asyncio'', ''queue'', ''subprocess''])"
| "makes_concurrency _ = False"

text \<open>\<open>once P m\<close>: a run of \<open>m\<close> adds at most one event that satisfies \<open>P\<close>.\<close>

definition once :: "(event \<Rightarrow> bool) \<Rightarrow> 'a py \<Rightarrow> bool" where
  "once P m =
     (\<forall>h k. \<exists>es. trace (snd (m h k)) = trace k @ es \<and> length (filter P es) \<le> 1)"

text \<open>The one file the notebooks open is the configuration document.\<close>

fun opens_only_config :: "event \<Rightarrow> bool" where
  "opens_only_config (Call f args kwargs) =
     (if f = ''open'' then args = [PyStr ''src/config.yml'', PyStr ''r''] \<and> kwargs = [] else True)"
| "opens_only_config _ = True"

text \<open>
  Three kinds of event, from the most to the least restricted: \<open>calm\<close> events are listed
  imports and calls that open no file but the configuration, read no status and start no
  remote work; \<open>quiet\<close> ones may start remote work; \<open>listed\<close> ones may also read a status.
\<close>

definition listed :: "string list \<Rightarrow> event \<Rightarrow> bool" where
  "listed fs e = (expected_event fs e \<and> opens_only_config e)"

definition quiet :: "string list \<Rightarrow> event \<Rightarrow> bool" where
  "quiet fs e = (listed fs e \<and> \<not> is_status_read e)"

definition calm :: "string list \<Rightarrow> event \<Rightarrow> bool" where
  "calm fs e = (quiet fs e \<and> \<not> starts_remote_work e)"

section \<open>The training script\<close>

text \<open>
  Modelled from the spec: the training script \<^verbatim>\<open>src/train.py\<close>, which the configured
  \<open>training_command\<close> runs on the cluster and which is not among the sources. The
  specification says that the accelerator configuration is "consumed opaquely by the
  training script", and of the settings of both configuration files that they "are
  consumed as-is by external SDKs; no bespoke parsing or validation logic exists". So what
  the script does with the accelerator configuration is to hand the training arguments,
  the name of the accelerator file among them, to the external SDK as they are; reading
  the file is the SDK's work.
\<close>

definition train_script :: "unit py" where
  "train_script =
     bind (config_at ''training_args'') (\<lambda>training_args.
     bind (unpack_kwargs training_args) (\<lambda>kwargs.
     bind (call ''external SDK'' [] kwargs) (\<lambda>_.
     ret ())))"

section \<open>Stepping through a cell\<close>

lemma bind_apply:
  "bind m f h k = (case m h k of (Inl e, k') \<Rightarrow> (Inl e, k') | (Inr x, k') \<Rightarrow> f x h k')"
  by (simp add: bind_def)

lemma load_apply:
  "load x h k = (case globals k x of None \<Rightarrow> (Inl (NameError x), k) | Some v \<Rightarrow> (Inr v, k))"
  by (simp add: load_def)

lemma config_at_apply:
  "globals k ''config'' = Some (PyDict cfg) \<Longrightarrow>
   config_at key h k = (case map_of cfg key of None \<Rightarrow> (Inl (KeyError key), k) | Some v \<Rightarrow> (Inr v, k))"
  by (simp add: config_at_def bind_def load_def subscript_str_def raise_def ret_def split: option.splits)

lemmas step = bind_apply load_apply store_def ext_def call_def print_str_def ret_def raise_def

lemma subscript_dict:
  "subscript_str (PyDict kvs) key h k =
     (case map_of kvs key of None \<Rightarrow> (Inl (KeyError key), k) | Some v \<Rightarrow> (Inr v, k))"
  by (simp add: subscript_str_def raise_def ret_def split: option.splits)

lemma call_method_obj:
  "call_method (PyObj x) m args kwargs h k =
     (respond h (trace k) (Call m (PyObj x # args) kwargs),
      k\<lparr>trace := trace k @ [Call m (PyObj x # args) kwargs]\<rparr>)"
  by (simp add: call_method_def call_def ext_def)

lemma getattr_obj:
  "getattr (PyObj x) a h k =
     (respond h (trace k) (GetAttr (PyObj x) a), k\<lparr>trace := trace k @ [GetAttr (PyObj x) a]\<rparr>)"
  by (simp add: getattr_def ext_def)

lemma invoke_obj:
  "invoke (PyObj x) args kwargs h k =
     (respond h (trace k) (Call ''__call__'' (PyObj x # args) kwargs),
      k\<lparr>trace := trace k @ [Call ''__call__'' (PyObj x # args) kwargs]\<rparr>)"
  by (simp add: invoke_def call_def ext_def)

lemma dec_3: "dec_int 3 = ''3''"
  by code_simp

lemma dec_16: "dec_int 16 = ''16''"
  by code_simp

section \<open>Properties of the two configuration files\<close>

text \<open>
  C2 (as amended). \<^verbatim>\<open>src/config.yml\<close> has every key the specification lists as
  recognised, with \<open>node_count\<close> and \<open>process_count\<close> under \<open>pytorch_configuration\<close>
  and the epoch count, batch size and evaluation strategy under \<open>training_args\<close>; besides
  them it has exactly four more top-level keys: \<open>task_dataset_version\<close>,
  \<open>description\<close>, \<open>val_key\<close> and \<open>model_output_dir\<close>.
\<close>

theorem config_yml_keys:
  "missing_keys config_yml = [] \<and>
   unlisted_keys config_yml =
     [''task_dataset_version'', ''description'', ''val_key'', ''model_output_dir''] \<and>
   dict_path config_yml [''pytorch_configuration'', ''node_count''] = Some (PyInt 2) \<and>
   dict_path config_yml [''pytorch_configuration'', ''process_count''] = Some (PyInt 2) \<and>
   dict_path config_yml [''training_args'', ''num_train_epochs''] = Some (PyInt 3) \<and>
   dict_path config_yml [''training_args'', ''per_device_train_batch_size''] = Some (PyInt 16) \<and>
   dict_path config_yml [''training_args'', ''evaluation_strategy''] = Some (PyStr ''epoch'')"
  by (simp add: missing_keys_def unlisted_keys_def recognized_keys_def config_yml_def)

text \<open>
  C2 as the specification states it ("no top-level keys other than those recognised")
  fails on the file: \<open>description\<close> is a top-level key and is not in the list.
\<close>

theorem config_yml_only_recognized_counterexample:
  "\<not> (set recognized_keys \<subseteq> set (dict_keys config_yml) \<and>
       set (dict_keys config_yml) \<subseteq> set recognized_keys)"
proof -
  have "''description'' \<in> set (dict_keys config_yml)"
    by (simp add: config_yml_def)
  moreover have "''description'' \<notin> set recognized_keys"
    by (simp add: recognized_keys_def)
  ultimately show ?thesis by blast
qed

section \<open>Notebook 01: the cluster is provisioned only when it is not found\<close>

lemma finish_cluster:
  assumes "globals k' ''cluster'' = Some cl"
  shows "snd (bind (load ''cluster'') (\<lambda>cluster.
     bind (call_method cluster ''wait_for_completion'' [] [(''show_output'', PyBool True)]) (\<lambda>r.
     display r)) h k') = k'\<lparr>trace := trace k' @ waited h (trace k') cl\<rparr>"
  using assms
  by (cases cl)
     (simp_all add: step call_method_def display_def waited_def wait_for_completion_def
        split: sum.splits)

lemma compute_cluster_unfold:
  "compute_cluster h k =
     (case try_except find_cluster (bind (load ''azureml'') (\<lambda>_. ret ComputeTargetException))
             provision_cluster h k of
        (Inl e, k') \<Rightarrow> (Inl e, k')
      | (Inr x, k') \<Rightarrow> bind (load ''cluster'') (\<lambda>cluster.
          bind (call_method cluster ''wait_for_completion'' [] [(''show_output'', PyBool True)])
            (\<lambda>r. display r)) h k')"
  by (simp add: compute_cluster_def bind_apply)

lemma compute_cluster_events:
  assumes g: "globals k ''azureml'' = Some (PyObj az)" "globals k ''workspace'' = Some ws"
             "globals k ''config'' = Some (PyDict cfg)"
    and c: "map_of cfg ''compute_target'' = Some name"
           "map_of cfg ''compute_size'' = Some vm_size"
           "map_of cfg ''compute_node_count'' = Some max_nodes"
  shows "events_of compute_cluster h k =
     (let L = lookup_cluster ws name; P = provisioning_configuration vm_size max_nodes;
          found = ''Found existing compute cluster'' in
      case respond h (trace k) L of
        Inr cl \<Rightarrow> [L, Print found] @ waited h (trace k @ [L, Print found]) cl
      | Inl e \<Rightarrow>
          if e \<noteq> ComputeTargetException then [L]
          else (case respond h (trace k @ [L]) P of
                  Inl _ \<Rightarrow> [L, P]
                | Inr cc \<Rightarrow>
                    (case respond h (trace k @ [L, P]) (create_cluster ws name cc) of
                       Inl _ \<Rightarrow> [L, P, create_cluster ws name cc]
                     | Inr cl \<Rightarrow>
                         [L, P, create_cluster ws name cc] @
                         waited h (trace k @ [L, P, create_cluster ws name cc]) cl)))"
proof -
  let ?L = "lookup_cluster ws name"
  let ?P = "provisioning_configuration vm_size max_nodes"
  note cc = compute_cluster_unfold
  show ?thesis
  proof (cases "respond h (trace k) ?L")
    case (Inr cl)
    then have f: "find_cluster h k = (Inr (), k\<lparr>globals := (globals k)(''cluster'' \<mapsto> cl),
        trace := trace k @ [?L, Print ''Found existing compute cluster'']\<rparr>)"
      using g c by (simp add: find_cluster_def step config_at_apply lookup_cluster_def)
    show ?thesis using Inr
      by (simp add: cc try_except_def f finish_cluster events_of_def Let_def)
  next
    case (Inl e)
    then have f: "find_cluster h k = (Inl e, k\<lparr>trace := trace k @ [?L]\<rparr>)"
      using g c by (simp add: find_cluster_def step config_at_apply lookup_cluster_def)
    show ?thesis
    proof (cases "e = ComputeTargetException")
      case False
      then show ?thesis using Inl g
        by (simp add: cc try_except_def f step events_of_def Let_def)
    next
      case True
      let ?k1 = "k\<lparr>trace := trace k @ [?L]\<rparr>"
      have t: "try_except find_cluster (bind (load ''azureml'') (\<lambda>_. ret ComputeTargetException))
             provision_cluster h k = provision_cluster h ?k1"
        using True g by (simp add: try_except_def f step)
      show ?thesis
      proof (cases "respond h (trace k @ [?L]) ?P")
        case pl: (Inl e2)
        then have "provision_cluster h ?k1 = (Inl e2, k\<lparr>trace := trace k @ [?L, ?P]\<rparr>)"
          using g c
          by (simp add: provision_cluster_def step config_at_apply provisioning_configuration_def)
        then show ?thesis using Inl True pl
          by (simp add: cc t events_of_def Let_def)
      next
        case pr: (Inr cfgobj)
        let ?C = "create_cluster ws name cfgobj"
        show ?thesis
        proof (cases "respond h (trace k @ [?L, ?P]) ?C")
          case cl: (Inl e3)
          then have "provision_cluster h ?k1 =
            (Inl e3, k\<lparr>globals := (globals k)(''compute_config'' \<mapsto> cfgobj),
                       trace := trace k @ [?L, ?P, ?C]\<rparr>)"
            using g c pr
            by (simp add: provision_cluster_def step config_at_apply
                provisioning_configuration_def create_cluster_def)
          then show ?thesis using Inl True pr cl
            by (simp add: cc t events_of_def Let_def)
        next
          case cr: (Inr cl)
          then have "provision_cluster h ?k1 =
            (Inr (), k\<lparr>globals := (globals k)(''compute_config'' \<mapsto> cfgobj, ''cluster'' \<mapsto> cl),
                       trace := trace k @ [?L, ?P, ?C]\<rparr>)"
            using g c pr
            by (simp add: provision_cluster_def step config_at_apply
                provisioning_configuration_def create_cluster_def)
          then show ?thesis using Inl True pr cr
            by (simp add: cc t events_of_def finish_cluster Let_def)
        qed
      qed
    qed
  qed
qed

lemma waited_not_provisioning: "filter is_provisioning (waited h tr cl) = []"
  by (cases cl) (simp_all add: waited_def wait_for_completion_def split: sum.splits)

lemma compute_cluster_found:
  assumes g: "globals k ''azureml'' = Some (PyObj az)" "globals k ''workspace'' = Some ws"
             "globals k ''config'' = Some (PyDict cfg)"
    and c: "map_of cfg ''compute_target'' = Some name"
    and r: "respond h (trace k) (lookup_cluster ws name) = Inr cl"
  shows "snd (compute_cluster h k) =
     k\<lparr>globals := (globals k)(''cluster'' \<mapsto> cl),
       trace := trace k @ [lookup_cluster ws name, Print ''Found existing compute cluster''] @
                waited h (trace k @ [lookup_cluster ws name,
                                     Print ''Found existing compute cluster'']) cl\<rparr>"
proof -
  have f: "find_cluster h k = (Inr (), k\<lparr>globals := (globals k)(''cluster'' \<mapsto> cl),
        trace := trace k @ [lookup_cluster ws name, Print ''Found existing compute cluster'']\<rparr>)"
    using g c r by (simp add: find_cluster_def step config_at_apply lookup_cluster_def)
  show ?thesis
    by (simp add: compute_cluster_unfold try_except_def f finish_cluster)
qed

text \<open>
  C1. In the cluster cell of the compute notebook, run in a kernel where \<open>azureml\<close> is
  the imported module, \<open>workspace\<close> and \<open>config\<close> are bound and the configuration has the
  three compute keys: a provisioning call is made if and only if the lookup of the compute
  target named \<open>config['compute_target']\<close> raises \<open>ComputeTargetException\<close>. In that case
  the provisioning configuration is asked for with \<open>vm_size = config['compute_size']\<close> and
  \<open>max_nodes = config['compute_node_count']\<close>, and the cluster is created under the same
  name with the configuration that call returned. When the lookup returns a cluster, no
  provisioning call is made: that cluster is bound to \<open>cluster\<close> as it is and waited on,
  the value of the wait is the cell's output, and nothing else changes.
\<close>

theorem cluster_provisioned_iff_not_found:
  assumes g: "globals k ''azureml'' = Some (PyObj az)" "globals k ''workspace'' = Some ws"
             "globals k ''config'' = Some (PyDict cfg)"
    and c: "map_of cfg ''compute_target'' = Some name"
           "map_of cfg ''compute_size'' = Some vm_size"
           "map_of cfg ''compute_node_count'' = Some max_nodes"
  shows "((filter is_provisioning (events_of compute_cluster h k) \<noteq> []) =
            (respond h (trace k) (lookup_cluster ws name) = Inl ComputeTargetException)) \<and>
         (respond h (trace k) (lookup_cluster ws name) = Inl ComputeTargetException \<longrightarrow>
            prefix [lookup_cluster ws name, provisioning_configuration vm_size max_nodes]
              (events_of compute_cluster h k) \<and>
            (\<forall>cc. respond h (trace k @ [lookup_cluster ws name])
                    (provisioning_configuration vm_size max_nodes) = Inr cc \<longrightarrow>
                  filter is_provisioning (events_of compute_cluster h k) =
                    [provisioning_configuration vm_size max_nodes, create_cluster ws name cc])) \<and>
         (\<forall>cl. respond h (trace k) (lookup_cluster ws name) = Inr cl \<longrightarrow>
            filter is_provisioning (events_of compute_cluster h k) = [] \<and>
            snd (compute_cluster h k) =
              k\<lparr>globals := (globals k)(''cluster'' \<mapsto> cl),
                trace := trace k @
                  [lookup_cluster ws name, Print ''Found existing compute cluster''] @
                  waited h (trace k @ [lookup_cluster ws name,
                                       Print ''Found existing compute cluster'']) cl\<rparr>)"
proof -
  note ev = compute_cluster_events [OF g c, of h]
  have p: "is_provisioning (provisioning_configuration vm_size max_nodes)"
          "\<And>cc. is_provisioning (create_cluster ws name cc)"
          "\<not> is_provisioning (lookup_cluster ws name)"
    by (simp_all add: provisioning_configuration_def create_cluster_def lookup_cluster_def)
  have one: "(filter is_provisioning (events_of compute_cluster h k) \<noteq> []) =
            (respond h (trace k) (lookup_cluster ws name) = Inl ComputeTargetException)"
    by (simp add: ev Let_def p waited_not_provisioning split: sum.splits)
  have two: "respond h (trace k) (lookup_cluster ws name) = Inl ComputeTargetException \<Longrightarrow>
            prefix [lookup_cluster ws name, provisioning_configuration vm_size max_nodes]
              (events_of compute_cluster h k)"
    by (simp add: ev Let_def split: sum.splits)
  have three: "respond h (trace k) (lookup_cluster ws name) = Inl ComputeTargetException \<Longrightarrow>
       respond h (trace k @ [lookup_cluster ws name])
                    (provisioning_configuration vm_size max_nodes) = Inr cc \<Longrightarrow>
                  filter is_provisioning (events_of compute_cluster h k) =
                    [provisioning_configuration vm_size max_nodes, create_cluster ws name cc]" for cc
    by (simp add: ev Let_def p waited_not_provisioning split: sum.splits)
  have four: "respond h (trace k) (lookup_cluster ws name) = Inr cl \<Longrightarrow>
            filter is_provisioning (events_of compute_cluster h k) = []" for cl
    by (simp add: ev Let_def p waited_not_provisioning)
  show ?thesis
    using one two three four compute_cluster_found [OF g c(1)] by blast
qed

theorem cluster_provisioned_iff_not_found_witness:
  "filter is_provisioning (events_of compute_cluster no_such_cluster configured) =
     [provisioning_configuration (PyStr ''STANDARD_NC4AS_T4_V3'') (PyInt 2),
      create_cluster (PyObj ''workspace'') (PyStr ''gpu-K80-1'') (PyObj ''made'')] \<and>
   snd (compute_cluster obliging configured) =
     configured\<lparr>globals := (globals configured)
         (''cluster'' \<mapsto> PyObj ''azureml.core.compute.ComputeTarget''),
       trace := [lookup_cluster (PyObj ''workspace'') (PyStr ''gpu-K80-1''),
                 Print ''Found existing compute cluster'',
                 wait_for_completion (PyObj ''azureml.core.compute.ComputeTarget''),
                 Display (PyObj ''wait_for_completion'')]\<rparr>"
proof -
  have g: "globals configured ''azureml'' = Some (PyObj ''azureml'')"
          "globals configured ''workspace'' = Some (PyObj ''workspace'')"
          "globals configured ''config'' = Some (PyDict (case config_yml of PyDict kvs \<Rightarrow> kvs))"
    by (simp_all add: configured_def config_yml_def)
  have c: "map_of (case config_yml of PyDict kvs \<Rightarrow> kvs) ''compute_target'' = Some (PyStr ''gpu-K80-1'')"
          "map_of (case config_yml of PyDict kvs \<Rightarrow> kvs) ''compute_size'' = Some (PyStr ''STANDARD_NC4AS_T4_V3'')"
          "map_of (case config_yml of PyDict kvs \<Rightarrow> kvs) ''compute_node_count'' = Some (PyInt 2)"
    by (simp_all add: config_yml_def)
  have r: "respond no_such_cluster (trace configured)
             (lookup_cluster (PyObj ''workspace'') (PyStr ''gpu-K80-1'')) = Inl ComputeTargetException"
    by (simp add: no_such_cluster_def)
  have r2: "respond no_such_cluster
             (trace configured @ [lookup_cluster (PyObj ''workspace'') (PyStr ''gpu-K80-1'')])
             (provisioning_configuration (PyStr ''STANDARD_NC4AS_T4_V3'') (PyInt 2)) = Inr (PyObj ''made'')"
    by (simp add: no_such_cluster_def lookup_cluster_def provisioning_configuration_def)
  have r3: "respond obliging (trace configured)
             (lookup_cluster (PyObj ''workspace'') (PyStr ''gpu-K80-1'')) =
            Inr (PyObj ''azureml.core.compute.ComputeTarget'')"
    by (simp add: obliging_def lookup_cluster_def)
  have w: "waited obliging
             [lookup_cluster (PyObj ''workspace'') (PyStr ''gpu-K80-1''),
              Print ''Found existing compute cluster'']
             (PyObj ''azureml.core.compute.ComputeTarget'') =
           [wait_for_completion (PyObj ''azureml.core.compute.ComputeTarget''),
            Display (PyObj ''wait_for_completion'')]"
    by (simp add: waited_def wait_for_completion_def obliging_def)
  have t: "trace configured = []"
    by (simp add: configured_def)
  have a: "filter is_provisioning (events_of compute_cluster no_such_cluster configured) =
     [provisioning_configuration (PyStr ''STANDARD_NC4AS_T4_V3'') (PyInt 2),
      create_cluster (PyObj ''workspace'') (PyStr ''gpu-K80-1'') (PyObj ''made'')]"
    using cluster_provisioned_iff_not_found [OF g c, of no_such_cluster] r r2 by blast
  have "snd (compute_cluster obliging configured) =
     configured\<lparr>globals := (globals configured)
         (''cluster'' \<mapsto> PyObj ''azureml.core.compute.ComputeTarget''),
       trace := trace configured @
         [lookup_cluster (PyObj ''workspace'') (PyStr ''gpu-K80-1''),
          Print ''Found existing compute cluster''] @
         waited obliging
           (trace configured @ [lookup_cluster (PyObj ''workspace'') (PyStr ''gpu-K80-1''),
                                Print ''Found existing compute cluster''])
           (PyObj ''azureml.core.compute.ComputeTarget'')\<rparr>"
    using cluster_provisioned_iff_not_found [OF g c, of obliging] r3 by blast
  with a show ?thesis
    by (simp add: t w)
qed

section \<open>Rules for names a program never binds\<close>

named_theorems keeps_intros

lemma keeps_ret [keeps_intros]: "keeps x (ret v)"
  by (simp add: keeps_def ret_def)

lemma keeps_raise [keeps_intros]: "keeps x (raise e)"
  by (simp add: keeps_def raise_def)

lemma keepsD: "keeps x m \<Longrightarrow> globals k x = None \<Longrightarrow> m h k = (r, k') \<Longrightarrow> globals k' x = None"
  unfolding keeps_def by (metis snd_conv)

lemma keeps_bind [keeps_intros]:
  assumes "keeps x m" and "\<And>v. keeps x (f v)"
  shows "keeps x (bind m f)"
  unfolding keeps_def
proof (intro allI impI)
  fix h and k :: kernel assume u: "globals k x = None"
  obtain r k' where mk: "m h k = (r, k')" by (cases "m h k")
  with assms(1) u have u': "globals k' x = None" by (blast dest: keepsD)
  show "globals (snd (bind m f h k)) x = None"
  proof (cases r)
    case (Inl e) with mk u' show ?thesis by (simp add: bind_def)
  next
    case (Inr v)
    with assms(2) [of v] u' mk show ?thesis by (simp add: bind_def keeps_def)
  qed
qed

lemma keeps_load [keeps_intros]: "keeps x (load y)"
  by (simp add: keeps_def load_def split: option.splits)

lemma keeps_store [keeps_intros]: "y \<noteq> x \<Longrightarrow> keeps x (store y v)"
  by (simp add: keeps_def store_def)

lemma keeps_ext [keeps_intros]: "keeps x (ext ev)"
  by (simp add: keeps_def ext_def)

lemma keeps_call [keeps_intros]: "keeps x (call f args kwargs)"
  by (simp add: call_def keeps_ext)

lemma keeps_import_as [keeps_intros]: "y \<noteq> x \<Longrightarrow> keeps x (import_as m y)"
  by (simp add: import_as_def keeps_bind keeps_ext keeps_store)

lemma keeps_str_of [keeps_intros]: "keeps x (str_of v)"
  by (simp add: keeps_def str_of_def)

lemma keeps_fstring [keeps_intros]: "keeps x (fstring ps)"
  by (simp add: keeps_def fstring_def)

lemma keeps_formatted [keeps_intros]: "keeps x (formatted v spec)"
  by (simp add: keeps_def formatted_def)

lemma keeps_print_str [keeps_intros]: "keeps x (print_str s)"
  by (simp add: keeps_def print_str_def)

lemma keeps_print_val [keeps_intros]: "keeps x (print_val v)"
  by (simp add: keeps_def print_val_def)

lemma keeps_display [keeps_intros]: "keeps x (display v)"
  by (simp add: keeps_def display_def)

lemma keeps_getattr [keeps_intros]: "keeps x (getattr v a)"
  by (cases v) (simp_all add: getattr_def keeps_intros)

lemma keeps_setattr [keeps_intros]: "keeps x (setattr v a w)"
  by (cases v) (simp_all add: setattr_def keeps_intros)

lemma keeps_call_method [keeps_intros]: "keeps x (call_method v m args kwargs)"
  by (cases v) (simp_all add: call_method_def keeps_intros)

lemma keeps_invoke [keeps_intros]: "keeps x (invoke v args kwargs)"
  by (cases v) (simp_all add: invoke_def keeps_intros)

lemma keeps_subscript_str [keeps_intros]: "keeps x (subscript_str v key)"
  by (cases v) (simp_all add: subscript_str_def keeps_intros split: option.splits)

lemma keeps_subscript_int [keeps_intros]: "keeps x (subscript_int v i)"
  by (cases v) (simp_all add: subscript_int_def keeps_intros split: option.splits)

lemma keeps_split_slash [keeps_intros]: "keeps x (split_slash v)"
  by (cases v) (simp_all add: split_slash_def keeps_intros)

lemma keeps_keys_of [keeps_intros]: "keeps x (keys_of v)"
  by (cases v) (simp_all add: keys_of_def keeps_intros)

lemma keeps_concat_str [keeps_intros]: "keeps x (concat_str s v)"
  by (cases v) (simp_all add: concat_str_def keeps_intros)

lemma keeps_unpack_kwargs [keeps_intros]: "keeps x (unpack_kwargs v)"
  by (cases v) (simp_all add: unpack_kwargs_def keeps_intros)

lemma keeps_config_at [keeps_intros]: "keeps x (config_at key)"
  by (simp add: config_at_def keeps_intros)

lemma keeps_with_open [keeps_intros]:
  assumes "y \<noteq> x" and "keeps x body"
  shows "keeps x (with_open path y body)"
proof -
  have inner: "keeps x (\<lambda>h k. case body h k of
         (r, k') \<Rightarrow>
           (case call ''__exit__'' [fl] [] h k' of
              (Inl e, k'') \<Rightarrow> (Inl e, k'')
            | (Inr _, k'') \<Rightarrow> (r, k'')))" for fl
    unfolding keeps_def
    by (auto simp: call_def ext_def dest: keepsD [OF assms(2)] split: prod.splits sum.splits)
  show ?thesis
    unfolding with_open_def
    by (intro keeps_bind keeps_call keeps_store assms(1) inner)
qed

lemma keeps_for_each [keeps_intros]:
  assumes "y \<noteq> x" and "\<And>v. keeps x (body v)"
  shows "keeps x (for_each y vs body)"
  by (induction vs) (simp_all add: keeps_intros assms)

lemma keeps_for_in [keeps_intros]:
  assumes "y \<noteq> x" and "\<And>v. keeps x (body v)"
  shows "keeps x (for_in y v body)"
  by (cases v) (simp_all add: for_in_def keeps_intros assms)

lemma keeps_run_each:
  assumes "\<And>c. c \<in> set cs \<Longrightarrow> keeps x c" and "globals k x = None"
  shows "globals (run_each cs h k) x = None"
  using assms by (induction cs arbitrary: k) (auto simp: keeps_def)

section \<open>Notebook 02: the push cell cannot run\<close>

lemma keeps_load_config: "keeps ''docker_build_commands'' load_config"
  by (simp add: load_config_def keeps_intros)

lemma keeps_connect_workspace: "keeps ''docker_build_commands'' connect_workspace"
  by (simp add: connect_workspace_def keeps_intros)

lemma keeps_env_user_managed: "keeps ''docker_build_commands'' env_user_managed"
  by (simp add: env_user_managed_def keeps_intros)

lemma keeps_print_line: "keeps ''docker_build_commands'' (print_line v)"
  by (simp add: print_line_def keeps_intros)

lemma keeps_cells:
  "keeps ''docker_build_commands'' env_imports"
  "keeps ''docker_build_commands'' env_register"
  "keeps ''docker_build_commands'' env_build"
  "keeps ''docker_build_commands'' env_status"
  "keeps ''docker_build_commands'' env_names"
  "keeps ''docker_build_commands'' env_build_commands"
  "keeps ''docker_build_commands'' env_run_command"
  "keeps ''docker_build_commands'' env_push_commands"
  "keeps ''docker_build_commands'' env_from_image"
  "keeps ''docker_build_commands'' env_empty"
  by (simp_all add: env_imports_def env_register_def env_build_def env_status_def env_names_def
      env_build_commands_def env_run_command_def env_push_commands_def env_from_image_def
      env_empty_def keeps_intros keeps_load_config keeps_env_user_managed keeps_print_line)

lemma push_commands_unbound:
  assumes "globals k ''docker_build_commands'' = None"
  shows "(outcome env_push_commands h k = Inl (NameError ''acr_name'') \<or>
          outcome env_push_commands h k = Inl (NameError ''container_name'') \<or>
          outcome env_push_commands h k = Inl (NameError ''docker_build_commands'')) \<and>
         events_of env_push_commands h k = []"
  using assms
  by (simp add: env_push_commands_def outcome_def events_of_def bind_def load_def store_def
      fstring_def split: option.splits)

lemma keeps_pick:
  assumes "\<And>c. c \<in> set cells \<Longrightarrow> keeps x c" and "c \<in> set (pick cells ns)"
  shows "keeps x c"
  using assms by (auto simp: pick_def keeps_ret)

lemma prepare_environment_unbound:
  "globals (run_each (pick prepare_environment ns) h fresh) ''docker_build_commands'' = None"
  "globals (run_each (pick prepare_environment_amltmp ns) h fresh) ''docker_build_commands'' = None"
proof -
  have a: "keeps ''docker_build_commands'' c" if "c \<in> set prepare_environment_amltmp" for c
    using that keeps_cells keeps_connect_workspace
    by (auto simp: prepare_environment_amltmp_def)
  then have b: "keeps ''docker_build_commands'' c" if "c \<in> set prepare_environment" for c
    using that keeps_cells(10) by (auto simp: prepare_environment_def)
  have f: "globals fresh ''docker_build_commands'' = None"
    by (simp add: fresh_def)
  show "globals (run_each (pick prepare_environment ns) h fresh) ''docker_build_commands'' = None"
    by (rule keeps_run_each [OF keeps_pick [of prepare_environment] f]) (auto intro: b)
  show "globals (run_each (pick prepare_environment_amltmp ns) h fresh) ''docker_build_commands'' = None"
    by (rule keeps_run_each [OF keeps_pick [of prepare_environment_amltmp] f]) (auto intro: a)
qed

text \<open>
  C9. In both copies of the environment notebook the cell that is to print the push
  commands binds \<open>cmds\<close> and then iterates over \<open>docker_build_commands\<close>, a name no cell
  of the notebook ever binds. Whatever the world answers (so whatever the configuration
  is) and whichever cells were run before it, in any order and any number of times from a
  fresh kernel, running the cell raises \<open>NameError\<close> and produces no event at all: nothing
  is printed.
\<close>

theorem push_commands_always_name_error:
  "is_name_error (outcome env_push_commands h (run_each (pick prepare_environment ns) h fresh)) \<and>
   events_of env_push_commands h (run_each (pick prepare_environment ns) h fresh) = [] \<and>
   is_name_error
     (outcome env_push_commands h (run_each (pick prepare_environment_amltmp ns) h fresh)) \<and>
   events_of env_push_commands h (run_each (pick prepare_environment_amltmp ns) h fresh) = []"
  using push_commands_unbound [OF prepare_environment_unbound(1), of h ns h]
        push_commands_unbound [OF prepare_environment_unbound(2), of h ns h]
  by auto

section \<open>Tags and the environment name\<close>

lemma run_tags_value:
  assumes "globals k ''config'' = Some (PyDict cfg)"
    and "map_of cfg ''model'' = Some model"
    and "map_of cfg ''task'' = Some task"
    and "map_of cfg ''metric'' = Some metric"
    and "map_of cfg ''environment'' = Some environment"
    and "map_of cfg ''training_args'' = Some (PyDict training_args)"
    and "map_of training_args ''num_train_epochs'' = Some epochs"
    and "map_of training_args ''per_device_train_batch_size'' = Some batch"
  shows "run_tags h k =
           (Inr (PyDict
             [(''model'', model), (''task'', task), (''metric'', metric),
              (''environment'', environment),
              (''num_train_epochs'', PyStr (py_str h epochs)),
              (''batch_size'', PyStr (py_str h batch))]), k)"
  using assms
  by (simp add: run_tags_def bind_apply config_at_apply subscript_dict str_of_def ret_def)




text \<open>
  C4 at \<^verbatim>\<open>src/config.yml\<close>. The later copy of the training notebook looks the
  environment up under a name written in the cell, \<open>deepspeed-transformers-datasets\<close>;
  the configuration says \<open>deepspeed-transformers\<close>, which is what the earlier copy passes
  and what both copies write into the run's \<open>environment\<close> tag.
\<close>

theorem environment_not_from_configuration:
  "take 1 (events_of train_environment_amltmp h configured) =
     [Call ''azureml.core.Environment.get'' [PyObj ''workspace'']
        [(''name'', PyStr ''deepspeed-transformers-datasets'')]] \<and>
   take 1 (events_of train_environment h configured) =
     [Call ''azureml.core.Environment.get'' [PyObj ''workspace'', PyStr ''deepspeed-transformers'']
        []] \<and>
   dict_get config_yml ''environment'' = Some (PyStr ''deepspeed-transformers'')"
  by (simp add: train_environment_amltmp_def train_environment_def events_of_def step
      config_at_def subscript_dict print_val_def configured_def config_yml_def
      split: sum.splits)

section \<open>Notebook 03: the tokenizer function\<close>

lemma toy_row: "row_has_length n (toy_encode n s)"
  by (simp add: toy_encode_def)

lemma toy_pads_and_truncates: "pads_and_truncates (toy_tokenizer n) n"
proof -
  have "fixed_length n r"
    if "respond (toy_tokenizer n) tr (tokenizer_call tokenizer sentences) = Inr r"
    for tr tokenizer sentences r
  proof (cases sentences)
    case (PyList ss)
    with that have "r = PyDict [(''input_ids'', PyList (map (toy_encode n) ss))]"
      by (simp add: toy_tokenizer_def tokenizer_call_def)
    then show ?thesis
      by (simp add: list_all_iff toy_row)
  qed (use that in \<open>simp_all add: toy_tokenizer_def tokenizer_call_def\<close>)
  then show ?thesis
    unfolding pads_and_truncates_def by blast
qed

text \<open>
  C8. For every batch that has a \<open>sentence\<close> column, \<open>tokenizer_function\<close> makes one
  call, to the tokenizer with the batch's sentences, \<^verbatim>\<open>padding="max_length"\<close> and
  \<^verbatim>\<open>truncation=True\<close>, and returns what that call returns, unchanged. So in every
  world where the tokenizer keeps its contract for these two options, every example the
  function returns has the same length, the tokenizer's maximum \<open>n\<close>, whatever the length
  of the sentences.
\<close>

theorem tokenizer_function_pads_to_max_length:
  assumes "globals k ''tokenizer'' = Some (PyObj t)"
    and "dict_get examples ''sentence'' = Some sentences"
  shows "events_of (tokenizer_function examples) h k = [tokenizer_call (PyObj t) sentences] \<and>
         outcome (tokenizer_function examples) h k =
           respond h (trace k) (tokenizer_call (PyObj t) sentences) \<and>
         (pads_and_truncates h n \<longrightarrow>
            (\<forall>r. outcome (tokenizer_function examples) h k = Inr r \<longrightarrow> fixed_length n r))"
proof -
  obtain columns where e: "examples = PyDict columns" "map_of columns ''sentence'' = Some sentences"
    using assms(2) by (cases examples) simp_all
  have run: "tokenizer_function examples h k =
      (respond h (trace k) (tokenizer_call (PyObj t) sentences),
       k\<lparr>trace := trace k @ [tokenizer_call (PyObj t) sentences]\<rparr>)"
    using assms(1) e
    by (simp add: tokenizer_function_def bind_apply load_apply subscript_str_def ret_def
        invoke_obj tokenizer_call_def)
  show ?thesis
    by (auto simp: run events_of_def outcome_def pads_and_truncates_def)
qed

theorem tokenizer_function_pads_to_max_length_witness:
  "events_of (tokenizer_function cola_batch) (toy_tokenizer 4) tokenizing =
     [tokenizer_call (PyObj ''tokenizer'') (PyList [PyStr ''i like pie'', PyStr ''no''])] \<and>
   outcome (tokenizer_function cola_batch) (toy_tokenizer 4) tokenizing =
     Inr (PyDict [(''input_ids'',
            PyList [PyList [PyInt 105, PyInt 32, PyInt 108, PyInt 105],
                    PyList [PyInt 110, PyInt 111, PyInt 0, PyInt 0]])]) \<and>
   fixed_length 4 (PyDict [(''input_ids'',
            PyList [PyList [PyInt 105, PyInt 32, PyInt 108, PyInt 105],
                    PyList [PyInt 110, PyInt 111, PyInt 0, PyInt 0]])])"
proof -
  have g: "globals tokenizing ''tokenizer'' = Some (PyObj ''tokenizer'')"
    by (simp add: tokenizing_def)
  have d: "dict_get cola_batch ''sentence'' = Some (PyList [PyStr ''i like pie'', PyStr ''no''])"
    by (simp add: cola_batch_def)
  have r: "respond (toy_tokenizer 4) (trace tokenizing)
             (tokenizer_call (PyObj ''tokenizer'') (PyList [PyStr ''i like pie'', PyStr ''no''])) =
           Inr (PyDict [(''input_ids'',
            PyList [PyList [PyInt 105, PyInt 32, PyInt 108, PyInt 105],
                    PyList [PyInt 110, PyInt 111, PyInt 0, PyInt 0]])])"
    by (simp add: toy_tokenizer_def tokenizer_call_def toy_encode_def eval_nat_numeral)
  show ?thesis
    using tokenizer_function_pads_to_max_length [OF g d, of "toy_tokenizer 4" 4]
      toy_pads_and_truncates [of 4] r
    by simp
qed

section \<open>Notebook 03: what happens to the dataset\<close>

lemma follows_append:
  "follows h tr (xs @ ys) = (follows h tr xs \<and> follows h (tr @ map fst xs) ys)"
proof (induction xs arbitrary: tr)
  case Nil
  then show ?case by simp
next
  case (Cons x xs)
  obtain ev a where x: "x = (ev, a)" by (cases x)
  show ?case
    using Cons.IH [of "tr @ [ev]"] by (cases a) (simp_all add: x)
qed

lemma callbacks_events:
  "map fst (callbacks tok bs) = map (\<lambda>b. tokenizer_call (PyObj tok) (sentences_of b)) bs"
  by (simp add: callbacks_def comp_def)

lemma tokenizer_function_run:
  assumes "globals k ''tokenizer'' = Some (PyObj tok)" and "has_sentences b"
  shows "tokenizer_function (batch_of b) h k =
           (respond h (trace k) (tokenizer_call (PyObj tok) (sentences_of b)),
            k\<lparr>trace := trace k @ [tokenizer_call (PyObj tok) (sentences_of b)]\<rparr>)"
  using assms
  by (simp add: tokenizer_function_def bind_apply load_apply subscript_dict batch_of_def
      has_sentences_def invoke_obj tokenizer_call_def)

lemma apply_tokenizer_function:
  "apply_function (PyFunc ''tokenizer_function'') = tokenizer_function"
  by (rule ext) (simp add: apply_function_def)

lemma each_batch_run:
  assumes "globals k ''tokenizer'' = Some (PyObj tok)"
    and "list_all has_sentences bs"
    and "follows h (trace k) (callbacks tok bs)"
  shows "each_batch (apply_function (PyFunc ''tokenizer_function'')) (map batch_of bs) h k =
           (Inr (map encoded_of bs),
            k\<lparr>trace := trace k @ map fst (callbacks tok bs)\<rparr>)"
  using assms
proof (induction bs arbitrary: k)
  case Nil
  then show ?case by (simp add: ret_def callbacks_def)
next
  case (Cons b bs)
  let ?k1 = "k\<lparr>trace := trace k @ [tokenizer_call (PyObj tok) (sentences_of b)]\<rparr>"
  from Cons.prems have b: "has_sentences b"
    and r: "respond h (trace k) (tokenizer_call (PyObj tok) (sentences_of b)) = Inr (encoded_of b)"
    and f: "follows h (trace ?k1) (callbacks tok bs)"
    by (simp_all add: callbacks_def)
  have ih: "each_batch (apply_function (PyFunc ''tokenizer_function'')) (map batch_of bs) h ?k1 =
           (Inr (map encoded_of bs), ?k1\<lparr>trace := trace ?k1 @ map fst (callbacks tok bs)\<rparr>)"
    using Cons.prems by (intro Cons.IH f) simp_all
  show ?case
    using tokenizer_function_run [OF Cons.prems(1) b, of h] r ih
    by (simp add: bind_apply apply_tokenizer_function ret_def callbacks_def)
qed

lemma map_batched_run:
  assumes "globals k ''tokenizer'' = Some (PyObj tok)"
    and "list_all has_sentences bs"
    and "follows h (trace k)
           ((Call ''map'' [PyObj d0, PyFunc ''tokenizer_function''] [(''batched'', PyBool True)],
             Some (PyList (map batch_of bs))) #
            callbacks tok bs @ [(Returned ''map'' (map encoded_of bs), Some v)])"
  shows "map_batched (PyObj d0) (PyFunc ''tokenizer_function'') h k =
           (Inr v,
            k\<lparr>trace := trace k @
               Call ''map'' [PyObj d0, PyFunc ''tokenizer_function''] [(''batched'', PyBool True)] #
               map fst (callbacks tok bs) @ [Returned ''map'' (map encoded_of bs)]\<rparr>)"
proof -
  let ?M = "Call ''map'' [PyObj d0, PyFunc ''tokenizer_function''] [(''batched'', PyBool True)]"
  let ?k1 = "k\<lparr>trace := trace k @ [?M]\<rparr>"
  from assms(3) have m: "respond h (trace k) ?M = Inr (PyList (map batch_of bs))"
    and f: "follows h (trace ?k1) (callbacks tok bs)"
    and r: "respond h (trace k @ ?M # map fst (callbacks tok bs))
              (Returned ''map'' (map encoded_of bs)) = Inr v"
    by (simp_all add: follows_append)
  have e: "each_batch (apply_function (PyFunc ''tokenizer_function'')) (map batch_of bs) h ?k1 =
           (Inr (map encoded_of bs), ?k1\<lparr>trace := trace ?k1 @ map fst (callbacks tok bs)\<rparr>)"
    using assms(1,2) by (intro each_batch_run f) simp_all
  show ?thesis
    using m e r
    by (simp add: map_batched_def bind_apply call_method_obj ext_def)
qed

text \<open>
  C3. Run in a kernel where the imports and the configuration are in place, in a world
  that answers every call, the dataset cells of the data notebook do exactly this, in this
  order: download the GLUE dataset named by \<open>config['task']\<close>; load the tokenizer of
  \<open>config['model']\<close>; map \<open>tokenizer_function\<close> over the downloaded dataset, in batches,
  so that the tokenizer is called once for every batch the library passes, on the batch's
  sentences, and what it answers goes back to the library; save the dataset \<open>map\<close>
  returned at \<open>config['data_dir']\<close>; connect to the workspace and its default datastore;
  upload the directory to the same path there; register the uploaded path as a dataset
  named after the task, with the description and tags made from task and model; read the
  registered dataset's version. There is no other event, and each step works on what the
  step before returned.
\<close>

theorem prepare_data_operations:
  assumes g: "globals k ''datasets'' = Some (PyObj m1)"
      "globals k ''transformers'' = Some (PyObj m2)"
      "globals k ''azureml'' = Some (PyObj m3)" "globals k ''config'' = Some (PyDict cfg)"
    and c: "map_of cfg ''task'' = Some task" "map_of cfg ''model'' = Some model"
      "map_of cfg ''data_dir'' = Some data_dir"
    and b: "list_all has_sentences batches"
    and f: "follows h (trace k)
      (data_transcript h task model data_dir d0 tok batches d1 saved ws ds uploaded path a
         registered version)"
  shows "outcome (run_all dataset_cells) h k = Inr () \<and>
         events_of (run_all dataset_cells) h k =
           map fst (data_transcript h task model data_dir d0 tok batches d1 saved ws ds
                      uploaded path a registered version)"
proof -
  note mb = map_batched_run [where tok = tok and bs = batches and ?d0.0 = d0
      and v = "PyObj d1" and h = h]
  show ?thesis
    using g c b f
    by (cases "saved = PyNone"; cases "uploaded = PyNone"; cases "version = PyNone")
      (simp_all add: data_transcript_def shown_def dataset_cells_def outcome_def events_of_def
       data_download_def data_tokenize_def data_connect_def connect_workspace_def data_upload_def
       data_register_def dataset_tags_def data_version_def
       bind_apply load_apply store_def call_def ext_def ret_def config_at_apply
       call_method_obj getattr_obj fstring_def display_def follows_append callbacks_events mb)
qed

theorem prepare_data_operations_witness:
  "list_all has_sentences
     [(cola_columns, PyList [PyStr ''i like pie'', PyStr ''no''], cola_encoded)] \<and>
   outcome (run_all dataset_cells) batching data_ready = Inr () \<and>
   events_of (run_all dataset_cells) batching data_ready =
     map fst (data_transcript batching (PyStr ''cola'') (PyStr ''distilbert-base-uncased'')
       (PyStr ''data/glue/cola'') ''datasets.load_dataset''
       ''transformers.AutoTokenizer.from_pretrained''
       [(cola_columns, PyList [PyStr ''i like pie'', PyStr ''no''], cola_encoded)]
       ''map'' (PyObj ''save_to_disk'')
       ''azureml.core.Workspace.from_config'' ''get_default_datastore'' (PyObj ''upload'')
       (PyObj ''path'') ''azureml.core.Dataset.File.from_files'' ''register'' (PyObj ''version''))"
proof -
  have g: "globals data_ready ''datasets'' = Some (PyObj ''datasets'')"
      "globals data_ready ''transformers'' = Some (PyObj ''transformers'')"
      "globals data_ready ''azureml'' = Some (PyObj ''azureml'')"
      "globals data_ready ''config'' = Some (PyDict (case config_yml of PyDict kvs \<Rightarrow> kvs))"
    by (simp_all add: data_ready_def configured_def config_yml_def)
  have c: "map_of (case config_yml of PyDict kvs \<Rightarrow> kvs) ''task'' = Some (PyStr ''cola'')"
      "map_of (case config_yml of PyDict kvs \<Rightarrow> kvs) ''model'' = Some (PyStr ''distilbert-base-uncased'')"
      "map_of (case config_yml of PyDict kvs \<Rightarrow> kvs) ''data_dir'' = Some (PyStr ''data/glue/cola'')"
    by (simp_all add: config_yml_def)
  have b: "list_all has_sentences
     [(cola_columns, PyList [PyStr ''i like pie'', PyStr ''no''], cola_encoded)]"
    by (simp add: has_sentences_def sentences_of_def cola_columns_def)
  have f: "follows batching (trace data_ready)
     (data_transcript batching (PyStr ''cola'') (PyStr ''distilbert-base-uncased'')
       (PyStr ''data/glue/cola'') ''datasets.load_dataset''
       ''transformers.AutoTokenizer.from_pretrained''
       [(cola_columns, PyList [PyStr ''i like pie'', PyStr ''no''], cola_encoded)]
       ''map'' (PyObj ''save_to_disk'')
       ''azureml.core.Workspace.from_config'' ''get_default_datastore'' (PyObj ''upload'')
       (PyObj ''path'') ''azureml.core.Dataset.File.from_files'' ''register'' (PyObj ''version''))"
    by (simp add: data_transcript_def shown_def batching_def toy_tokenizer_def obliging_def
        callbacks_def tokenizer_call_def batch_of_def sentences_of_def encoded_of_def
        cola_encoded_def toy_encode_def numeral_2_eq_2)
  show ?thesis
    using b prepare_data_operations [OF g c b f] by simp
qed

section \<open>Rules for the events a program adds\<close>

lemma emitsD:
  "emits P m \<Longrightarrow> m h k = (r, k') \<Longrightarrow> \<exists>es. trace k' = trace k @ es \<and> list_all P es"
  unfolding emits_def by (metis snd_conv)

lemma emits_pure: "(\<And>h k. trace (snd (m h k)) = trace k) \<Longrightarrow> emits P m"
  by (simp add: emits_def)

lemma emits_one:
  "P ev \<Longrightarrow> (\<And>h k. trace (snd (m h k)) = trace k @ [ev]) \<Longrightarrow> emits P m"
  by (simp add: emits_def)

named_theorems emits_intros

lemma emits_ret [emits_intros]: "emits P (ret v)"
  by (rule emits_pure) (simp add: ret_def)

lemma emits_raise [emits_intros]: "emits P (raise e)"
  by (rule emits_pure) (simp add: raise_def)

lemma emits_bind [emits_intros]:
  assumes "emits P m" and "\<And>v. emits P (f v)"
  shows "emits P (bind m f)"
  unfolding emits_def
proof (intro allI)
  fix h and k :: kernel
  obtain r k' where mk: "m h k = (r, k')" by (cases "m h k")
  from emitsD [OF assms(1) mk] obtain es where es: "trace k' = trace k @ es" "list_all P es"
    by blast
  show "\<exists>es. trace (snd (bind m f h k)) = trace k @ es \<and> list_all P es"
  proof (cases r)
    case (Inl e) with mk es show ?thesis by (simp add: bind_def)
  next
    case (Inr v)
    obtain r' k'' where fk: "f v h k' = (r', k'')" by (cases "f v h k'")
    from emitsD [OF assms(2) fk] obtain es' where "trace k'' = trace k' @ es'" "list_all P es'"
      by blast
    with es mk Inr fk show ?thesis by (simp add: bind_def)
  qed
qed

lemma emits_load [emits_intros]: "emits P (load y)"
  by (rule emits_pure) (simp add: load_def split: option.splits)

lemma emits_store [emits_intros]: "emits P (store y v)"
  by (rule emits_pure) (simp add: store_def)

lemma emits_ext [emits_intros]: "P ev \<Longrightarrow> emits P (ext ev)"
  by (rule emits_one [of P ev]) (simp_all add: ext_def)

lemma emits_call [emits_intros]: "P (Call f args kwargs) \<Longrightarrow> emits P (call f args kwargs)"
  by (simp add: call_def emits_ext)

lemma emits_import_as [emits_intros]: "P (Import m) \<Longrightarrow> emits P (import_as m y)"
  by (simp add: import_as_def emits_bind emits_ext emits_store)

lemma emits_str_of [emits_intros]: "emits P (str_of v)"
  by (rule emits_pure) (simp add: str_of_def)

lemma emits_fstring [emits_intros]: "emits P (fstring ps)"
  by (rule emits_pure) (simp add: fstring_def)

lemma emits_formatted [emits_intros]: "emits P (formatted v spec)"
  by (rule emits_pure) (simp add: formatted_def)

lemma emits_print_str [emits_intros]: "P (Print s) \<Longrightarrow> emits P (print_str s)"
  by (rule emits_one [of P "Print s"]) (simp_all add: print_str_def)

lemma emits_print_val [emits_intros]: "(\<And>s. P (Print s)) \<Longrightarrow> emits P (print_val v)"
  by (simp add: emits_def print_val_def)

lemma emits_display [emits_intros]: "P (Display v) \<Longrightarrow> emits P (display v)"
  by (simp add: emits_def display_def)

lemma emits_getattr [emits_intros]: "P (GetAttr v a) \<Longrightarrow> emits P (getattr v a)"
  by (cases v) (simp_all add: getattr_def emits_intros)

lemma emits_setattr [emits_intros]: "P (SetAttr v a w) \<Longrightarrow> emits P (setattr v a w)"
  by (cases v) (simp_all add: setattr_def emits_intros)

lemma emits_call_method [emits_intros]:
  "P (Call m (v # args) kwargs) \<Longrightarrow> emits P (call_method v m args kwargs)"
  by (cases v) (simp_all add: call_method_def emits_intros)

lemma emits_invoke [emits_intros]:
  "P (Call ''__call__'' (v # args) kwargs) \<Longrightarrow> emits P (invoke v args kwargs)"
  by (cases v) (simp_all add: invoke_def emits_intros)

lemma emits_subscript_str [emits_intros]:
  "P (Call ''__getitem__'' [v, PyStr key] []) \<Longrightarrow> emits P (subscript_str v key)"
  by (cases v) (simp_all add: subscript_str_def emits_intros split: option.splits)

lemma emits_subscript_int [emits_intros]:
  "P (Call ''__getitem__'' [v, PyInt i] []) \<Longrightarrow> emits P (subscript_int v i)"
  by (cases v) (simp_all add: subscript_int_def emits_intros split: option.splits)

lemma emits_split_slash [emits_intros]:
  "P (Call ''split'' [v, PyStr ''/''] []) \<Longrightarrow> emits P (split_slash v)"
  by (cases v) (simp_all add: split_slash_def emits_intros)

lemma emits_keys_of [emits_intros]: "P (Call ''keys'' [v] []) \<Longrightarrow> emits P (keys_of v)"
  by (cases v) (simp_all add: keys_of_def emits_intros)

lemma emits_concat_str [emits_intros]: "emits P (concat_str s v)"
  by (cases v) (simp_all add: concat_str_def emits_intros)

lemma emits_unpack_kwargs [emits_intros]: "emits P (unpack_kwargs v)"
  by (cases v) (simp_all add: unpack_kwargs_def emits_intros)

lemma emits_config_at [emits_intros]:
  "(\<And>v. P (Call ''__getitem__'' [v, PyStr key] [])) \<Longrightarrow> emits P (config_at key)"
  by (simp add: config_at_def emits_intros)

lemma emits_try_except [emits_intros]:
  assumes "emits P body" and "emits P cls" and "emits P handler"
  shows "emits P (try_except body cls handler)"
  unfolding emits_def
proof (intro allI)
  fix h and k :: kernel
  obtain r k1 where b: "body h k = (r, k1)" by (cases "body h k")
  from emitsD [OF assms(1) b] obtain es1 where es1: "trace k1 = trace k @ es1" "list_all P es1"
    by blast
  show "\<exists>es. trace (snd (try_except body cls handler h k)) = trace k @ es \<and> list_all P es"
  proof (cases r)
    case (Inr x) with b es1 show ?thesis by (simp add: try_except_def)
  next
    case (Inl e)
    obtain c k2 where c: "cls h k1 = (c, k2)" by (cases "cls h k1")
    from emitsD [OF assms(2) c] obtain es2 where es2: "trace k2 = trace k1 @ es2" "list_all P es2"
      by blast
    obtain r3 k3 where hd: "handler h k2 = (r3, k3)" by (cases "handler h k2")
    from emitsD [OF assms(3) hd] obtain es3 where es3: "trace k3 = trace k2 @ es3" "list_all P es3"
      by blast
    show ?thesis using b Inl c hd es1 es2 es3
      by (cases c) (auto simp: try_except_def)
  qed
qed

lemma emits_with_open [emits_intros]:
  assumes "P (Call ''open'' [PyStr path, PyStr ''r''] [])" "\<And>args. P (Call ''__enter__'' args [])"
    "\<And>args. P (Call ''__exit__'' args [])" and "emits P body"
  shows "emits P (with_open path y body)"
proof -
  have inner: "emits P (\<lambda>h k. case body h k of
         (r, k') \<Rightarrow>
           (case call ''__exit__'' [fl] [] h k' of
              (Inl e, k'') \<Rightarrow> (Inl e, k'')
            | (Inr _, k'') \<Rightarrow> (r, k'')))" for fl
    unfolding emits_def
  proof (intro allI)
    fix h and k :: kernel
    obtain r k1 where b: "body h k = (r, k1)" by (cases "body h k")
    from emitsD [OF assms(4) b] obtain es1 where "trace k1 = trace k @ es1" "list_all P es1"
      by blast
    then show "\<exists>es. trace (snd (case body h k of
         (r, k') \<Rightarrow>
           (case call ''__exit__'' [fl] [] h k' of
              (Inl e, k'') \<Rightarrow> (Inl e, k'')
            | (Inr _, k'') \<Rightarrow> (r, k'')))) = trace k @ es \<and> list_all P es"
      using b assms(3) by (auto simp: call_def ext_def split: sum.splits)
  qed
  show ?thesis
    unfolding with_open_def
    by (intro emits_bind emits_call emits_store assms(1,2) inner)
qed

lemma emits_for_each [emits_intros]:
  assumes "\<And>v. emits P (body v)"
  shows "emits P (for_each y vs body)"
  by (induction vs) (simp_all add: emits_intros assms)

lemma emits_for_in [emits_intros]:
  assumes "\<And>v. emits P (body v)"
  shows "emits P (for_in y v body)"
  by (cases v) (simp_all add: for_in_def emits_intros assms)

lemma emits_mono:
  assumes "emits P m" and "\<And>e. P e \<Longrightarrow> Q e"
  shows "emits Q m"
  unfolding emits_def
proof (intro allI)
  fix h and k :: kernel
  from assms(1) obtain es where "trace (snd (m h k)) = trace k @ es" "list_all P es"
    unfolding emits_def by blast
  with assms(2) show "\<exists>es. trace (snd (m h k)) = trace k @ es \<and> list_all Q es"
    by (auto simp: list_all_iff)
qed

lemma emits_tokenizer_function [emits_intros]:
  assumes "\<And>v args kwargs. P (Call ''__call__'' args kwargs)"
    "\<And>v. P (Call ''__getitem__'' [v, PyStr ''sentence''] [])"
  shows "emits P (tokenizer_function x)"
  by (simp add: tokenizer_function_def emits_intros assms)

lemma emits_apply_function [emits_intros]:
  assumes "\<And>v args kwargs. P (Call ''__call__'' args kwargs)"
    "\<And>v. P (Call ''__getitem__'' [v, PyStr ''sentence''] [])"
  shows "emits P (apply_function f x)"
  by (cases f) (simp_all add: apply_function_def emits_intros assms)

lemma emits_each_batch [emits_intros]:
  assumes "\<And>b. emits P (f b)"
  shows "emits P (each_batch f bs)"
  by (induction bs) (simp_all add: emits_intros assms)

lemma emits_map_batched [emits_intros]:
  assumes "\<And>v args kwargs. P (Call ''__call__'' args kwargs)"
    "\<And>v. P (Call ''__getitem__'' [v, PyStr ''sentence''] [])"
    "P (Call ''map'' [d, f] [(''batched'', PyBool True)])"
    "\<And>rs. P (Returned ''map'' rs)"
  shows "emits P (map_batched d f)"
proof -
  have "emits P (case answer of
         PyList batches \<Rightarrow>
           bind (each_batch (apply_function f) batches) (\<lambda>results.
           ext (Returned ''map'' results))
       | _ \<Rightarrow> ret answer)" for answer
    by (cases answer) (simp_all add: emits_intros assms)
  then show ?thesis
    unfolding map_batched_def by (intro emits_bind emits_call_method assms)
qed

lemma emits_run_each:
  assumes "\<And>c. c \<in> set cs \<Longrightarrow> emits P c"
  shows "\<exists>es. trace (run_each cs h k) = trace k @ es \<and> list_all P es"
  using assms
proof (induction cs arbitrary: k)
  case Nil
  then show ?case by simp
next
  case (Cons c cs)
  obtain r k1 where c: "c h k = (r, k1)" by (cases "c h k")
  from emitsD [OF Cons.prems [of c] c] obtain es1 where es1: "trace k1 = trace k @ es1" "list_all P es1"
    by auto
  from Cons.IH [of k1] Cons.prems obtain es2 where
    "trace (run_each cs h k1) = trace k1 @ es2" "list_all P es2"
    by auto
  with es1 c show ?case by auto
qed

lemma emits_pick:
  assumes "\<And>c. c \<in> set cells \<Longrightarrow> emits P c" and "c \<in> set (pick cells ns)"
  shows "emits P c"
  using assms by (auto simp: pick_def emits_ret)

lemma emits_fresh:
  assumes "\<And>c. c \<in> set cells \<Longrightarrow> emits P c"
  shows "list_all P (trace (run_each (pick cells ns) h fresh))"
proof -
  from emits_run_each [of "pick cells ns" P h fresh] emits_pick [OF assms]
  obtain es where "trace (run_each (pick cells ns) h fresh) = trace fresh @ es" "list_all P es"
    by blast
  then show ?thesis by (simp add: fresh_def)
qed

section \<open>The events of every cell\<close>

lemma calm_events:
  "calm fs (Print s)"
  "calm fs (Display v)"
  "calm fs (SetAttr v a w)"
  "calm fs (Returned f rs)"
  "a \<noteq> ''status'' \<Longrightarrow> calm fs (GetAttr v a)"
  "m \<in> set imported_modules \<Longrightarrow> calm fs (Import m)"
  "''open'' \<in> set fs \<Longrightarrow> calm fs (Call ''open'' [PyStr ''src/config.yml'', PyStr ''r''] [])"
  by (simp_all add: calm_def quiet_def listed_def)

lemma calm_call:
  "f \<in> set fs \<Longrightarrow>
   f \<notin> set [''open'', ''get_status'', ''azureml.core.compute.ComputeTarget.create'', ''build'',
              ''submit''] \<Longrightarrow>
   calm fs (Call f args kwargs)"
  by (simp add: calm_def quiet_def listed_def)

lemma quiet_events:
  "quiet fs (Print s)"
  "quiet fs (Display v)"
  "quiet fs (SetAttr v a w)"
  "quiet fs (Returned f rs)"
  "a \<noteq> ''status'' \<Longrightarrow> quiet fs (GetAttr v a)"
  "m \<in> set imported_modules \<Longrightarrow> quiet fs (Import m)"
  "''open'' \<in> set fs \<Longrightarrow> quiet fs (Call ''open'' [PyStr ''src/config.yml'', PyStr ''r''] [])"
  by (simp_all add: quiet_def listed_def)

lemma quiet_call:
  "f \<in> set fs \<Longrightarrow> f \<notin> set [''open'', ''get_status''] \<Longrightarrow> quiet fs (Call f args kwargs)"
  by (simp add: quiet_def listed_def)

lemma listed_events:
  "listed fs (Print s)"
  "listed fs (Display v)"
  "listed fs (SetAttr v a w)"
  "listed fs (Returned f rs)"
  "listed fs (GetAttr v a)"
  "m \<in> set imported_modules \<Longrightarrow> listed fs (Import m)"
  "''open'' \<in> set fs \<Longrightarrow> listed fs (Call ''open'' [PyStr ''src/config.yml'', PyStr ''r''] [])"
  by (simp_all add: listed_def)

lemma listed_call:
  "f \<in> set fs \<Longrightarrow> f \<noteq> ''open'' \<Longrightarrow> listed fs (Call f args kwargs)"
  by (simp add: listed_def)

lemma calm_quiet: "calm fs e \<Longrightarrow> quiet fs e"
  by (simp add: calm_def)

lemma quiet_listed: "quiet fs e \<Longrightarrow> listed fs e"
  by (simp add: quiet_def)

lemma in_notebook_calls:
  "''open'' \<in> set notebook_calls"
  "''__enter__'' \<in> set notebook_calls"
  "''__exit__'' \<in> set notebook_calls"
  "''yaml.safe_load'' \<in> set notebook_calls"
  "''azureml.core.Workspace.from_config'' \<in> set notebook_calls"
  "''__call__'' \<in> set notebook_calls"
  "''__getitem__'' \<in> set notebook_calls"
  "''split'' \<in> set notebook_calls"
  "''keys'' \<in> set notebook_calls"
  "''read_text'' \<in> set notebook_calls"
  "''azureml.core.Environment.from_dockerfile'' \<in> set notebook_calls"
  "''register'' \<in> set notebook_calls"
  "''build'' \<in> set notebook_calls"
  "''get_details'' \<in> set notebook_calls"
  "''azureml.core.Environment'' \<in> set notebook_calls"
  "''datasets.load_dataset'' \<in> set notebook_calls"
  "''transformers.AutoTokenizer.from_pretrained'' \<in> set notebook_calls"
  "''map'' \<in> set notebook_calls"
  "''save_to_disk'' \<in> set notebook_calls"
  "''get_default_datastore'' \<in> set notebook_calls"
  "''upload'' \<in> set notebook_calls"
  "''path'' \<in> set notebook_calls"
  "''azureml.core.Dataset.File.from_files'' \<in> set notebook_calls"
  "''azureml.core.Environment.list'' \<in> set notebook_calls"
  "''azureml.core.Environment.get'' \<in> set notebook_calls"
  "''azureml.core.Experiment'' \<in> set notebook_calls"
  "''azureml.core.runconfig.PyTorchConfiguration'' \<in> set notebook_calls"
  "''azureml.core.ScriptRunConfig'' \<in> set notebook_calls"
  "''submit'' \<in> set notebook_calls"
  "''set_tags'' \<in> set notebook_calls"
  "''get_portal_url'' \<in> set notebook_calls"
  "''get_status'' \<in> set notebook_calls"
  "''get_metrics'' \<in> set notebook_calls"
  "''azureml.core.Model'' \<in> set notebook_calls"
  "''download'' \<in> set notebook_calls"
  "''transformers.AutoModelForSequenceClassification.from_pretrained'' \<in> set notebook_calls"
  "''transformers.TextClassificationPipeline'' \<in> set notebook_calls"
  by (simp_all add: notebook_calls_def)

lemma in_compute_calls:
  "''open'' \<in> set compute_calls"
  "''__enter__'' \<in> set compute_calls"
  "''__exit__'' \<in> set compute_calls"
  "''yaml.safe_load'' \<in> set compute_calls"
  "''azureml.core.Workspace.from_config'' \<in> set compute_calls"
  "''__getitem__'' \<in> set compute_calls"
  "''azureml.core.compute.ComputeTarget'' \<in> set compute_calls"
  "''azureml.core.compute.AmlCompute.provisioning_configuration'' \<in> set compute_calls"
  "''azureml.core.compute.ComputeTarget.create'' \<in> set compute_calls"
  "''wait_for_completion'' \<in> set compute_calls"
  by (simp_all add: compute_calls_def)

lemma in_imported_modules:
  "''onnx'' \<in> set imported_modules"
  "''transformers'' \<in> set imported_modules"
  "''yaml'' \<in> set imported_modules"
  "''azureml.core'' \<in> set imported_modules"
  "''datasets'' \<in> set imported_modules"
  "''subprocess'' \<in> set imported_modules"
  "''pathlib.Path'' \<in> set imported_modules"
  by (simp_all add: imported_modules_def)

lemmas trace_rules = emits_intros calm_events calm_call
lemmas name_lists = in_notebook_calls in_compute_calls in_imported_modules

lemma emits_shared:
  "emits (calm notebook_calls) load_config"
  "emits (calm notebook_calls) connect_workspace"
  "emits (calm compute_calls) load_config"
  "emits (calm compute_calls) connect_workspace"
  by (simp_all add: load_config_def connect_workspace_def trace_rules name_lists)

lemma emits_parts:
  "emits (calm notebook_calls) env_user_managed"
  "emits (calm notebook_calls) (print_line v)"
  "emits (calm notebook_calls) dataset_tags"
  "emits (calm notebook_calls) run_tags"
  "emits (calm notebook_calls) print_portal_url"
  "emits (calm notebook_calls) (classify_sentence v)"
  by (simp_all add: env_user_managed_def print_line_def dataset_tags_def run_tags_def
      print_portal_url_def classify_sentence_def trace_rules name_lists)

lemma emits_environment_cells:
  "emits (calm notebook_calls) env_imports"
  "emits (calm notebook_calls) env_register"
  "emits (calm notebook_calls) env_names"
  "emits (calm notebook_calls) env_build_commands"
  "emits (calm notebook_calls) env_run_command"
  "emits (calm notebook_calls) env_push_commands"
  "emits (calm notebook_calls) env_empty"
  by (simp_all add: env_imports_def env_register_def env_names_def
      env_build_commands_def env_run_command_def env_push_commands_def
      env_empty_def trace_rules emits_shared emits_parts name_lists)

lemma emits_data_cells:
  "emits (calm notebook_calls) data_imports"
  "emits (calm notebook_calls) data_download"
  "emits (calm notebook_calls) data_tokenize"
  "emits (calm notebook_calls) data_connect"
  "emits (calm notebook_calls) data_upload"
  "emits (calm notebook_calls) data_register"
  "emits (calm notebook_calls) data_version"
  by (simp_all add: data_imports_def data_download_def data_tokenize_def data_connect_def
      data_upload_def data_register_def data_version_def
      trace_rules emits_shared emits_parts name_lists)

lemma emits_train_cells:
  "emits (calm notebook_calls) train_imports"
  "emits (calm notebook_calls) train_list_environments"
  "emits (calm notebook_calls) train_environment"
  "emits (calm notebook_calls) train_environment_amltmp"
  "emits (calm notebook_calls) train_experiment"
  "emits (calm notebook_calls) train_configure"
  "emits (calm notebook_calls) train_metrics"
  "emits (calm notebook_calls) train_download"
  "emits (calm notebook_calls) train_pipeline"
  "emits (calm notebook_calls) train_sentences"
  by (simp_all add: train_imports_def train_list_environments_def train_environment_def
      train_environment_amltmp_def train_experiment_def train_configure_def
      train_metrics_def train_download_def train_pipeline_def
      train_sentences_def trace_rules emits_shared emits_parts name_lists)

lemma emits_compute_cells:
  "emits (calm compute_calls) compute_check_install"
  "emits (calm compute_calls) compute_load_config"
  "emits (calm compute_calls) find_cluster"
  by (simp_all add: compute_check_install_def compute_load_config_def find_cluster_def
      trace_rules emits_shared name_lists)

section \<open>Events that happen at most once\<close>

lemma filter_none: "list_all (\<lambda>e. \<not> P e) es \<Longrightarrow> filter P es = []"
  by (simp add: filter_empty_conv list_all_iff)

lemma onceD:
  "once P m \<Longrightarrow> m h k = (r, k') \<Longrightarrow> \<exists>es. trace k' = trace k @ es \<and> length (filter P es) \<le> 1"
  unfolding once_def by (metis snd_conv)

lemma once_zero: "emits (\<lambda>e. \<not> P e) m \<Longrightarrow> once P m"
  unfolding once_def emits_def by (metis filter_none list.size(3) zero_le)

lemma once_bind_first:
  assumes "once P m" and "\<And>v. emits (\<lambda>e. \<not> P e) (f v)"
  shows "once P (bind m f)"
  unfolding once_def
proof (intro allI)
  fix h and k :: kernel
  obtain r k' where mk: "m h k = (r, k')" by (cases "m h k")
  from onceD [OF assms(1) mk] obtain es where
    es: "trace k' = trace k @ es" "length (filter P es) \<le> 1"
    by blast
  show "\<exists>es. trace (snd (bind m f h k)) = trace k @ es \<and> length (filter P es) \<le> 1"
  proof (cases r)
    case (Inl e) with mk es show ?thesis by (simp add: bind_def)
  next
    case (Inr v)
    obtain r' k'' where fk: "f v h k' = (r', k'')" by (cases "f v h k'")
    from emitsD [OF assms(2) fk] obtain es' where
      "trace k'' = trace k' @ es'" "list_all (\<lambda>e. \<not> P e) es'"
      by blast
    with es mk Inr fk show ?thesis by (simp add: bind_def filter_none)
  qed
qed

lemma once_bind_later:
  assumes "emits (\<lambda>e. \<not> P e) m" and "\<And>v. once P (f v)"
  shows "once P (bind m f)"
  unfolding once_def
proof (intro allI)
  fix h and k :: kernel
  obtain r k' where mk: "m h k = (r, k')" by (cases "m h k")
  from emitsD [OF assms(1) mk] obtain es where
    es: "trace k' = trace k @ es" "list_all (\<lambda>e. \<not> P e) es"
    by blast
  show "\<exists>es. trace (snd (bind m f h k)) = trace k @ es \<and> length (filter P es) \<le> 1"
  proof (cases r)
    case (Inl e) with mk es show ?thesis by (simp add: bind_def filter_none)
  next
    case (Inr v)
    obtain r' k'' where fk: "f v h k' = (r', k'')" by (cases "f v h k'")
    from onceD [OF assms(2) fk] obtain es' where
      "trace k'' = trace k' @ es'" "length (filter P es') \<le> 1"
      by blast
    with es mk Inr fk show ?thesis by (simp add: bind_def filter_none)
  qed
qed

lemma once_ext: "once P (ext ev)"
  by (simp add: once_def ext_def)

lemma once_call: "once P (call f args kwargs)"
  by (simp add: call_def once_ext)

lemma once_call_method: "once P (call_method v m args kwargs)"
  by (cases v) (simp_all add: call_method_def once_call once_zero emits_raise)

lemma once_getattr: "once P (getattr v a)"
  by (cases v) (simp_all add: getattr_def once_ext once_zero emits_raise)

lemma once_try_except:
  assumes "emits (\<lambda>e. \<not> P e) body" and "emits (\<lambda>e. \<not> P e) cls" and "once P handler"
  shows "once P (try_except body cls handler)"
  unfolding once_def
proof (intro allI)
  fix h and k :: kernel
  obtain r k1 where b: "body h k = (r, k1)" by (cases "body h k")
  from emitsD [OF assms(1) b] obtain es1 where
    es1: "trace k1 = trace k @ es1" "list_all (\<lambda>e. \<not> P e) es1"
    by blast
  show "\<exists>es. trace (snd (try_except body cls handler h k)) = trace k @ es \<and>
             length (filter P es) \<le> 1"
  proof (cases r)
    case (Inr x) with b es1 show ?thesis by (simp add: try_except_def filter_none)
  next
    case (Inl e)
    obtain c k2 where c: "cls h k1 = (c, k2)" by (cases "cls h k1")
    from emitsD [OF assms(2) c] obtain es2 where
      es2: "trace k2 = trace k1 @ es2" "list_all (\<lambda>e. \<not> P e) es2"
      by blast
    obtain r3 k3 where hd: "handler h k2 = (r3, k3)" by (cases "handler h k2")
    from onceD [OF assms(3) hd] obtain es3 where
      es3: "trace k3 = trace k2 @ es3" "length (filter P es3) \<le> 1"
      by blast
    show ?thesis using b Inl c hd es1 es2 es3
      by (cases c) (auto simp: try_except_def filter_none)
  qed
qed

lemmas once_rules = once_bind_later once_bind_first once_call once_call_method once_getattr

lemma calm_no_start: "emits (calm fs) m \<Longrightarrow> emits (\<lambda>e. \<not> starts_remote_work e) m"
  by (erule emits_mono) (simp add: calm_def)

lemma quiet_no_status: "emits (quiet fs) m \<Longrightarrow> emits (\<lambda>e. \<not> is_status_read e) m"
  by (erule emits_mono) (simp add: quiet_def)

lemma calm_no_status: "emits (calm fs) m \<Longrightarrow> emits (\<lambda>e. \<not> is_status_read e) m"
  by (erule emits_mono) (simp add: calm_def quiet_def)

lemma emits_calm_quiet: "emits (calm fs) m \<Longrightarrow> emits (quiet fs) m"
  by (erule emits_mono) (rule calm_quiet)

lemma emits_quiet_listed: "emits (quiet fs) m \<Longrightarrow> emits (listed fs) m"
  by (erule emits_mono) (rule quiet_listed)

subsection \<open>The cells that start remote work or read a status\<close>

lemmas quiet_rules = emits_intros quiet_events quiet_call
lemmas listed_rules = emits_intros listed_events listed_call

lemma emits_quiet_cells:
  "emits (quiet notebook_calls) env_from_image"
  "emits (quiet notebook_calls) train_submit"
  "emits (quiet compute_calls) provision_cluster"
  "emits (quiet compute_calls) compute_cluster"
  by (simp_all add: env_from_image_def train_submit_def provision_cluster_def
      compute_cluster_def quiet_rules name_lists
      emits_parts [THEN emits_calm_quiet] emits_compute_cells [THEN emits_calm_quiet])

lemma emits_listed_cells:
  "emits (listed notebook_calls) env_build"
  "emits (listed notebook_calls) env_status"
  "emits (listed notebook_calls) train_status"
  by (simp_all add: env_build_def env_status_def train_status_def listed_rules name_lists)

lemma emits_no_start:
  "emits (\<lambda>e. \<not> starts_remote_work e) env_status"
  "emits (\<lambda>e. \<not> starts_remote_work e) train_status"
  by (simp_all add: env_status_def train_status_def emits_intros)

lemma once_start:
  "once starts_remote_work env_build"
  "once starts_remote_work env_from_image"
  "once starts_remote_work train_submit"
  "once starts_remote_work provision_cluster"
  by (simp_all add: env_build_def env_from_image_def train_submit_def provision_cluster_def
      once_rules emits_intros emits_parts [THEN calm_no_start])

lemma once_start_cluster: "once starts_remote_work compute_cluster"
  unfolding compute_cluster_def
  by (intro once_bind_first once_try_except once_start)
    (simp_all add: emits_intros emits_compute_cells [THEN calm_no_start])

lemma once_status:
  "once is_status_read env_build"
  "once is_status_read env_status"
  "once is_status_read train_status"
  by (simp_all add: env_build_def env_status_def train_status_def once_rules emits_intros)

section \<open>Rules for programs that cannot depend on a status\<close>

lemma agreeD:
  assumes "agree m1 m2" and "same_but_status h1 h2" and "alike k1 k2"
    and "m1 h1 k1 = (r1, k1')" and "m2 h2 k2 = (r2, k2')"
  shows "r1 = r2 \<and> alike k1' k2'"
  using assms(1) [unfolded agree_def, rule_format, OF assms(2,3)] assms(4,5) by simp

lemma agree_bind:
  assumes "agree m1 m2" and "\<And>v. agree (f1 v) (f2 v)"
  shows "agree (bind m1 f1) (bind m2 f2)"
  unfolding agree_def
proof (intro allI impI)
  fix h1 h2 :: host and k1 k2 :: kernel
  assume s: "same_but_status h1 h2" and a: "alike k1 k2"
  obtain r1 k1' where m1: "m1 h1 k1 = (r1, k1')" by (cases "m1 h1 k1")
  obtain r2 k2' where m2: "m2 h2 k2 = (r2, k2')" by (cases "m2 h2 k2")
  from agreeD [OF assms(1) s a m1 m2] have r: "r2 = r1" and a': "alike k1' k2'"
    by simp_all
  show "fst (bind m1 f1 h1 k1) = fst (bind m2 f2 h2 k2) \<and>
        alike (snd (bind m1 f1 h1 k1)) (snd (bind m2 f2 h2 k2))"
  proof (cases r1)
    case (Inl e) with m1 m2 r a' show ?thesis by (simp add: bind_def)
  next
    case (Inr v)
    from assms(2) [of v, unfolded agree_def, rule_format, OF s a'] Inr m1 m2 r
    show ?thesis by (simp add: bind_def)
  qed
qed

lemma py_str_same: "same_but_status h1 h2 \<Longrightarrow> py_str h1 v = py_str h2 v"
  by (simp add: same_but_status_def py_str_def split: pyval.splits)

lemma agree_print:
  "agree (bind (fstring ps1) print_str) (bind (fstring ps2) print_str)"
  by (simp add: agree_def bind_def fstring_def print_str_def alike_def)

lemma agree_ext:
  assumes "\<And>v1 v2. agree (f v1) (f v2)"
  shows "agree (bind (ext ev) f) (bind (ext ev) f)"
  unfolding agree_def
proof (intro allI impI)
  fix h1 h2 :: host and k1 k2 :: kernel
  assume s: "same_but_status h1 h2" and a: "alike k1 k2"
  let ?k1 = "k1\<lparr>trace := trace k1 @ [ev]\<rparr>" and ?k2 = "k2\<lparr>trace := trace k2 @ [ev]\<rparr>"
  from a have a': "alike ?k1 ?k2" by (simp add: alike_def)
  from s a consider
    (same) "respond h1 (trace k1) ev = respond h2 (trace k2) ev"
  | (both) v1 v2 where "respond h1 (trace k1) ev = Inr v1" "respond h2 (trace k2) ev = Inr v2"
    unfolding same_but_status_def alike_def by blast
  then show "fst (bind (ext ev) f h1 k1) = fst (bind (ext ev) f h2 k2) \<and>
        alike (snd (bind (ext ev) f h1 k1)) (snd (bind (ext ev) f h2 k2))"
  proof cases
    case same
    show ?thesis
    proof (cases "respond h2 (trace k2) ev")
      case (Inl e) with same a' show ?thesis by (simp add: bind_def ext_def)
    next
      case (Inr v)
      from assms [of v v, unfolded agree_def, rule_format, OF s a'] same Inr
      show ?thesis by (simp add: bind_def ext_def)
    qed
  next
    case both
    from assms [of v1 v2, unfolded agree_def, rule_format, OF s a'] both
    show ?thesis by (simp add: bind_def ext_def)
  qed
qed

named_theorems steady_intros

lemma steady_ret [steady_intros]: "steady (ret v)"
  by (simp add: steady_def agree_def ret_def)

lemma steady_raise [steady_intros]: "steady (raise e)"
  by (simp add: steady_def agree_def raise_def)

lemma steady_bind [steady_intros]: "steady m \<Longrightarrow> (\<And>v. steady (f v)) \<Longrightarrow> steady (bind m f)"
  unfolding steady_def by (rule agree_bind)

lemma agree_after [steady_intros]:
  "steady m \<Longrightarrow> (\<And>v. agree (f1 v) (f2 v)) \<Longrightarrow> agree (bind m f1) (bind m f2)"
  unfolding steady_def by (rule agree_bind)

lemma steady_load [steady_intros]: "steady (load x)"
  by (simp add: steady_def agree_def load_def alike_def split: option.splits)

lemma steady_store [steady_intros]: "steady (store x v)"
  by (simp add: steady_def agree_def store_def alike_def)

lemma steady_ext [steady_intros]: "\<not> is_status_read ev \<Longrightarrow> steady (ext ev)"
  unfolding steady_def agree_def
proof (intro allI impI)
  fix h1 h2 :: host and k1 k2 :: kernel
  assume n: "\<not> is_status_read ev" and s: "same_but_status h1 h2" and a: "alike k1 k2"
  from s a n have "respond h1 (trace k1) ev = respond h2 (trace k2) ev"
    unfolding same_but_status_def alike_def by blast
  with a show "fst (ext ev h1 k1) = fst (ext ev h2 k2) \<and>
        alike (snd (ext ev h1 k1)) (snd (ext ev h2 k2))"
    by (simp add: ext_def alike_def)
qed

lemma steady_call [steady_intros]: "f \<noteq> ''get_status'' \<Longrightarrow> steady (call f args kwargs)"
  by (simp add: call_def steady_ext)

lemma steady_import_as [steady_intros]: "steady (import_as m x)"
  by (simp add: import_as_def steady_bind steady_ext steady_store)

lemma steady_str_of [steady_intros]: "steady (str_of v)"
  by (simp add: steady_def agree_def str_of_def py_str_same)

lemma steady_fstring [steady_intros]: "steady (fstring ps)"
  unfolding steady_def agree_def
proof (intro allI impI)
  fix h1 h2 :: host and k1 k2 :: kernel
  assume s: "same_but_status h1 h2" and a: "alike k1 k2"
  have "(\<lambda>p. case p of Lit s \<Rightarrow> s | Val v \<Rightarrow> py_str h1 v) =
        (\<lambda>p. case p of Lit s \<Rightarrow> s | Val v \<Rightarrow> py_str h2 v)"
    by (intro ext) (simp add: py_str_same [OF s] split: piece.splits)
  with a show "fst (fstring ps h1 k1) = fst (fstring ps h2 k2) \<and>
        alike (snd (fstring ps h1 k1)) (snd (fstring ps h2 k2))"
    by (simp add: fstring_def)
qed

lemma steady_formatted [steady_intros]: "steady (formatted v spec)"
  by (simp add: steady_def agree_def formatted_def same_but_status_def)

lemma steady_print_str [steady_intros]: "steady (print_str s)"
  by (simp add: steady_def agree_def print_str_def alike_def)

lemma steady_print_val [steady_intros]: "steady (print_val v)"
  by (simp add: steady_def agree_def print_val_def alike_def)

lemma steady_display [steady_intros]: "steady (display v)"
  by (simp add: steady_def agree_def display_def alike_def)

lemma steady_getattr [steady_intros]: "a \<noteq> ''status'' \<Longrightarrow> steady (getattr v a)"
  by (cases v) (simp_all add: getattr_def steady_intros)

lemma steady_setattr [steady_intros]: "steady (setattr v a w)"
  by (cases v) (simp_all add: setattr_def steady_intros)

lemma steady_call_method [steady_intros]:
  "m \<noteq> ''get_status'' \<Longrightarrow> steady (call_method v m args kwargs)"
  by (cases v) (simp_all add: call_method_def steady_intros)

lemma steady_invoke [steady_intros]: "steady (invoke v args kwargs)"
  by (cases v) (simp_all add: invoke_def steady_intros)

lemma steady_subscript_str [steady_intros]: "steady (subscript_str v key)"
  by (cases v) (simp_all add: subscript_str_def steady_intros split: option.splits)

lemma steady_subscript_int [steady_intros]: "steady (subscript_int v i)"
  by (cases v) (simp_all add: subscript_int_def steady_intros split: option.splits)

lemma steady_split_slash [steady_intros]: "steady (split_slash v)"
  by (cases v) (simp_all add: split_slash_def steady_intros)

lemma steady_keys_of [steady_intros]: "steady (keys_of v)"
  by (cases v) (simp_all add: keys_of_def steady_intros)

lemma steady_concat_str [steady_intros]: "steady (concat_str s v)"
  by (cases v) (simp_all add: concat_str_def steady_intros)

lemma steady_unpack_kwargs [steady_intros]: "steady (unpack_kwargs v)"
  by (cases v) (simp_all add: unpack_kwargs_def steady_intros)

lemma steady_config_at [steady_intros]: "steady (config_at key)"
  by (simp add: config_at_def steady_intros)

lemma steadyD:
  assumes "steady m" and "same_but_status h1 h2" and "alike k1 k2"
    and "m h1 k1 = (r1, k1')" and "m h2 k2 = (r2, k2')"
  shows "r1 = r2 \<and> alike k1' k2'"
  using assms agreeD unfolding steady_def by blast

lemma steady_try_except [steady_intros]:
  assumes "steady body" and "steady cls" and "steady handler"
  shows "steady (try_except body cls handler)"
  unfolding steady_def agree_def
proof (intro allI impI)
  fix h1 h2 :: host and k1 k2 :: kernel
  assume s: "same_but_status h1 h2" and a: "alike k1 k2"
  obtain r1 j1 where b1: "body h1 k1 = (r1, j1)" by (cases "body h1 k1")
  obtain r2 j2 where b2: "body h2 k2 = (r2, j2)" by (cases "body h2 k2")
  from steadyD [OF assms(1) s a b1 b2] have r: "r2 = r1" and aj: "alike j1 j2" by simp_all
  show "fst (try_except body cls handler h1 k1) = fst (try_except body cls handler h2 k2) \<and>
        alike (snd (try_except body cls handler h1 k1)) (snd (try_except body cls handler h2 k2))"
  proof (cases r1)
    case (Inr x) with b1 b2 r aj show ?thesis by (simp add: try_except_def)
  next
    case (Inl e)
    obtain c1 l1 where c1: "cls h1 j1 = (c1, l1)" by (cases "cls h1 j1")
    obtain c2 l2 where c2: "cls h2 j2 = (c2, l2)" by (cases "cls h2 j2")
    from steadyD [OF assms(2) s aj c1 c2] have c: "c2 = c1" and al: "alike l1 l2" by simp_all
    from assms(3) [unfolded steady_def agree_def, rule_format, OF s al]
    show ?thesis using b1 b2 r Inl c1 c2 c al
      by (cases c1) (simp_all add: try_except_def)
  qed
qed

lemma steady_with_open [steady_intros]:
  assumes "steady body"
  shows "steady (with_open path x body)"
proof -
  have inner: "steady (\<lambda>h k. case body h k of
         (r, k') \<Rightarrow>
           (case call ''__exit__'' [fl] [] h k' of
              (Inl e, k'') \<Rightarrow> (Inl e, k'')
            | (Inr _, k'') \<Rightarrow> (r, k'')))" for fl
    unfolding steady_def agree_def
  proof (intro allI impI)
    fix h1 h2 :: host and k1 k2 :: kernel
    assume s: "same_but_status h1 h2" and a: "alike k1 k2"
    let ?m = "\<lambda>h k. case body h k of
         (r, k') \<Rightarrow>
           (case call ''__exit__'' [fl] [] h k' of
              (Inl e, k'') \<Rightarrow> (Inl e, k'')
            | (Inr _, k'') \<Rightarrow> (r, k''))"
    obtain r1 j1 where b1: "body h1 k1 = (r1, j1)" by (cases "body h1 k1")
    obtain r2 j2 where b2: "body h2 k2 = (r2, j2)" by (cases "body h2 k2")
    from steadyD [OF assms s a b1 b2] have r: "r2 = r1" and aj: "alike j1 j2" by simp_all
    obtain x1 l1 where c1: "call ''__exit__'' [fl] [] h1 j1 = (x1, l1)"
      by (cases "call ''__exit__'' [fl] [] h1 j1")
    obtain x2 l2 where c2: "call ''__exit__'' [fl] [] h2 j2 = (x2, l2)"
      by (cases "call ''__exit__'' [fl] [] h2 j2")
    have "steady (call ''__exit__'' [fl] [])" by (simp add: steady_call)
    from steadyD [OF this s aj c1 c2] have "x2 = x1" "alike l1 l2" by simp_all
    with b1 b2 r c1 c2 show "fst (?m h1 k1) = fst (?m h2 k2) \<and>
        alike (snd (?m h1 k1)) (snd (?m h2 k2))"
      by (cases x1) simp_all
  qed
  show ?thesis
    unfolding with_open_def
    by (intro steady_bind steady_call steady_store inner) simp_all
qed

lemma steady_for_each [steady_intros]:
  assumes "\<And>v. steady (body v)"
  shows "steady (for_each x vs body)"
  by (induction vs) (simp_all add: steady_intros assms)

lemma steady_for_in [steady_intros]:
  assumes "\<And>v. steady (body v)"
  shows "steady (for_in x v body)"
  by (cases v) (simp_all add: for_in_def steady_intros assms)

lemma steady_tokenizer_function [steady_intros]: "steady (tokenizer_function x)"
  by (simp add: tokenizer_function_def steady_intros)

lemma steady_apply_function [steady_intros]: "steady (apply_function f x)"
  by (cases f) (simp_all add: apply_function_def steady_intros)

lemma steady_each_batch [steady_intros]:
  assumes "\<And>b. steady (f b)"
  shows "steady (each_batch f bs)"
  by (induction bs) (simp_all add: steady_intros assms)

lemma steady_map_batched [steady_intros]: "steady (map_batched d f)"
proof -
  have "steady (case answer of
         PyList batches \<Rightarrow>
           bind (each_batch (apply_function f) batches) (\<lambda>results.
           ext (Returned ''map'' results))
       | _ \<Rightarrow> ret answer)" for answer
    by (cases answer) (simp_all add: steady_intros)
  then show ?thesis
    unfolding map_batched_def by (intro steady_bind steady_call_method) simp_all
qed

subsection \<open>Reading a status\<close>

lemma bind_raise: "bind (raise e) f = raise e"
  by (simp add: bind_def raise_def)

lemma steady_read_attr:
  assumes "\<And>v1 v2. agree (f v1) (f v2)"
  shows "steady (bind (getattr v a) f)"
proof (cases v)
  case (PyObj x)
  then show ?thesis
    unfolding steady_def by (simp add: getattr_def agree_ext assms)
qed (simp_all add: getattr_def bind_raise steady_raise)

lemma steady_read_method:
  assumes "\<And>v1 v2. agree (f v1) (f v2)"
  shows "steady (bind (call_method v m args kwargs) f)"
proof (cases v)
  case (PyObj x)
  then show ?thesis
    unfolding steady_def by (simp add: call_method_def call_def agree_ext assms)
qed (simp_all add: call_method_def bind_raise steady_raise)

lemma steady_status_cells:
  "steady env_build"
  "steady env_status"
  "steady train_status"
  by (simp_all add: env_build_def env_status_def train_status_def steady_intros
      steady_read_attr steady_read_method agree_print)

subsection \<open>Every cell is steady\<close>

lemma steady_shared:
  "steady load_config"
  "steady connect_workspace"
  by (simp_all add: load_config_def connect_workspace_def steady_intros)

lemma steady_parts:
  "steady env_user_managed"
  "steady (print_line v)"
  "steady dataset_tags"
  "steady run_tags"
  "steady print_portal_url"
  "steady (classify_sentence v)"
  by (simp_all add: env_user_managed_def print_line_def dataset_tags_def run_tags_def
      print_portal_url_def classify_sentence_def steady_intros)

lemma steady_environment_cells:
  "steady env_imports"
  "steady env_register"
  "steady env_names"
  "steady env_build_commands"
  "steady env_run_command"
  "steady env_push_commands"
  "steady env_from_image"
  "steady env_empty"
  by (simp_all add: env_imports_def env_register_def env_names_def
      env_build_commands_def env_run_command_def env_push_commands_def env_from_image_def
      env_empty_def steady_intros steady_shared steady_parts)

lemma steady_data_cells:
  "steady data_imports"
  "steady data_download"
  "steady data_tokenize"
  "steady data_connect"
  "steady data_upload"
  "steady data_register"
  "steady data_version"
  by (simp_all add: data_imports_def data_download_def data_tokenize_def data_connect_def
      data_upload_def data_register_def data_version_def
      steady_intros steady_shared steady_parts)

lemma steady_train_cells:
  "steady train_imports"
  "steady train_list_environments"
  "steady train_environment"
  "steady train_environment_amltmp"
  "steady train_experiment"
  "steady train_configure"
  "steady train_submit"
  "steady train_metrics"
  "steady train_download"
  "steady train_pipeline"
  "steady train_sentences"
  by (simp_all add: train_imports_def train_list_environments_def train_environment_def
      train_environment_amltmp_def train_experiment_def train_configure_def train_submit_def
      train_metrics_def train_download_def train_pipeline_def
      train_sentences_def steady_intros steady_shared steady_parts)

lemma steady_compute_cells:
  "steady compute_check_install"
  "steady compute_load_config"
  "steady find_cluster"
  "steady provision_cluster"
  "steady compute_cluster"
  by (simp_all add: compute_check_install_def compute_load_config_def find_cluster_def
      provision_cluster_def compute_cluster_def steady_intros steady_shared)

lemma all_notebooks_steady:
  assumes "c \<in> set all_notebooks"
  shows "steady c"
  using assms steady_environment_cells steady_data_cells steady_train_cells steady_shared
    steady_compute_cells steady_status_cells
  by (auto simp: all_notebooks_def create_compute_def later_notebooks_def
      prepare_environment_def prepare_environment_amltmp_def
      prepare_data_def dataset_cells_def train_model_def train_model_amltmp_def)

lemma steady_run_each:
  assumes "\<And>c. c \<in> set cs \<Longrightarrow> steady c" and "same_but_status h1 h2" and "alike k1 k2"
  shows "alike (run_each cs h1 k1) (run_each cs h2 k2)"
  using assms(1,3)
proof (induction cs arbitrary: k1 k2)
  case Nil
  then show ?case by simp
next
  case (Cons c cs)
  obtain r1 j1 where c1: "c h1 k1 = (r1, j1)" by (cases "c h1 k1")
  obtain r2 j2 where c2: "c h2 k2 = (r2, j2)" by (cases "c h2 k2")
  have "steady c" by (rule Cons.prems(1)) simp
  from steadyD [OF this assms(2) Cons.prems(2) c1 c2] have "alike j1 j2" by simp
  with Cons.IH [of j1 j2] Cons.prems(1) c1 c2 show ?case by simp
qed

lemma steady_pick:
  assumes "\<And>c. c \<in> set cells \<Longrightarrow> steady c" and "c \<in> set (pick cells ns)"
  shows "steady c"
  using assms by (auto simp: pick_def steady_ret)

lemma failing_same_but_status: "same_but_status obliging failing"
  unfolding same_but_status_def
proof (intro conjI allI impI)
  fix tr1 tr2 :: "event list" and ev
  show "respond obliging tr1 ev = respond failing tr2 ev \<or>
        is_status_read ev \<and>
        (\<exists>v1 v2. respond obliging tr1 ev = Inr v1 \<and> respond failing tr2 ev = Inr v2)"
    by (cases ev) (simp_all add: obliging_def failing_def)
qed (simp_all add: obliging_def failing_def)

section \<open>The events of the notebooks\<close>

lemmas calm_later = emits_shared(1,2) emits_environment_cells emits_data_cells emits_train_cells
lemmas quiet_later = calm_later [THEN emits_calm_quiet] emits_quiet_cells(1,2)
lemmas listed_later = quiet_later [THEN emits_quiet_listed] emits_listed_cells
lemmas calm_compute = emits_shared(3,4) emits_compute_cells(1,2)
lemmas quiet_compute = calm_compute [THEN emits_calm_quiet] emits_quiet_cells(4)
lemmas listed_compute = quiet_compute [THEN emits_quiet_listed]

lemma later_notebooks_listed:
  assumes "c \<in> set later_notebooks"
  shows "emits (listed notebook_calls) c"
  using assms listed_later
  by (auto simp: later_notebooks_def prepare_environment_def prepare_environment_amltmp_def
      prepare_data_def dataset_cells_def train_model_def train_model_amltmp_def)

lemma create_compute_listed:
  assumes "c \<in> set create_compute"
  shows "emits (listed compute_calls) c"
  using assms listed_compute by (auto simp: create_compute_def)

lemma listed_either:
  "listed compute_calls e \<Longrightarrow> listed (compute_calls @ notebook_calls) e"
  "listed notebook_calls e \<Longrightarrow> listed (compute_calls @ notebook_calls) e"
  by (cases e; simp add: listed_def)+

lemma all_notebooks_listed:
  assumes "c \<in> set all_notebooks"
  shows "emits (listed (compute_calls @ notebook_calls)) c"
  using assms later_notebooks_listed create_compute_listed
  by (auto simp: all_notebooks_def intro: emits_mono listed_either)

lemma listed_not_wait: "listed notebook_calls e \<Longrightarrow> \<not> is_wait e"
  by (cases e) (auto simp: listed_def notebook_calls_def)

lemma listed_no_concurrency: "listed (compute_calls @ notebook_calls) e \<Longrightarrow> \<not> makes_concurrency e"
  by (cases e)
    (auto simp: listed_def notebook_calls_def compute_calls_def imported_modules_def module_of_def)

lemmas status_once =
  quiet_later [THEN quiet_no_status, THEN once_zero] once_status
  quiet_compute [THEN quiet_no_status, THEN once_zero]

lemmas start_once =
  calm_later [THEN calm_no_start, THEN once_zero] once_start(1-3)
  emits_no_start [THEN once_zero]
  calm_compute [THEN calm_no_start, THEN once_zero] once_start_cluster

lemma all_notebooks_once:
  "list_all (once is_status_read) all_notebooks"
  "list_all (once starts_remote_work) all_notebooks"
  by (simp_all add: all_notebooks_def create_compute_def later_notebooks_def
      prepare_environment_def prepare_environment_amltmp_def
      prepare_data_def dataset_cells_def train_model_def train_model_amltmp_def
      status_once start_once)

lemma compute_cluster_waits:
  assumes ok: "outcome compute_cluster h k = Inr ()"
  shows "\<exists>cl es v. globals (snd (compute_cluster h k)) ''cluster'' = Some cl \<and>
           respond h (trace k @ es) (wait_for_completion cl) = Inr v \<and>
           filter is_wait es = [] \<and>
           events_of compute_cluster h k = es @ wait_for_completion cl # map fst (shown v)"
proof -
  let ?T = "try_except find_cluster (bind (load ''azureml'') (\<lambda>_. ret ComputeTargetException))
              provision_cluster"
  have "emits (\<lambda>e. \<not> is_wait e) ?T"
    by (simp add: find_cluster_def provision_cluster_def emits_intros)
  moreover obtain r k1 where t: "?T h k = (r, k1)" by (cases "?T h k")
  ultimately obtain es where es: "trace k1 = trace k @ es" "filter is_wait es = []"
    by (blast dest: emitsD filter_none)
  from ok t obtain x where r: "r = Inr x"
    by (cases r) (simp_all add: outcome_def compute_cluster_unfold)
  from ok t r obtain cl where cl: "globals k1 ''cluster'' = Some cl"
    by (cases "globals k1 ''cluster''")
      (simp_all add: outcome_def compute_cluster_unfold bind_apply load_apply)
  from ok t r cl obtain c where c: "cl = PyObj c"
    by (cases cl)
      (simp_all add: outcome_def compute_cluster_unfold bind_apply load_apply call_method_def
        raise_def)
  from ok t r cl c obtain v where v: "respond h (trace k1) (wait_for_completion cl) = Inr v"
    by (cases "respond h (trace k1) (wait_for_completion cl)")
      (simp_all add: outcome_def compute_cluster_unfold bind_apply load_apply call_method_obj
        wait_for_completion_def)
  from t r cl c v es have
    "globals (snd (compute_cluster h k)) ''cluster'' = Some cl"
    "events_of compute_cluster h k = es @ wait_for_completion cl # map fst (shown v)"
    by (simp_all add: events_of_def compute_cluster_unfold bind_apply load_apply call_method_obj
        wait_for_completion_def display_def shown_def)
  with v es show ?thesis by auto
qed







end
